theory Spec2Isabelle
  imports Complex_Main "HOL-Library.AList"
begin

section \<open>Python values and errors\<close>

text \<open>
  The exceptions that the acquisition module of volvisdata raises or catches. Every
  \<^verbatim>\<open>raise\<close> of the source is a value \<open>Inl e\<close> of the model. \<open>OSError\<close>
  stands for the faults of the network transport, which no handler of the module names.
\<close>

datatype py_error =
  KeyError | IndexError | ValueError | ZeroDivisionError | OverflowError | OSError

text \<open>
  The handlers of \<^verbatim>\<open>get_option_data\<close> are written
  \<^verbatim>\<open>except (IndexError, KeyError, ValueError)\<close>; the handlers of
  \<^verbatim>\<open>_process_options\<close> are written \<^verbatim>\<open>except IndexError\<close>.
\<close>

fun caught_api :: "py_error \<Rightarrow> bool" where
  "caught_api IndexError = True"
| "caught_api KeyError = True"
| "caught_api ValueError = True"
| "caught_api ZeroDivisionError = False"
| "caught_api OverflowError = False"
| "caught_api OSError = False"

fun caught_index :: "py_error \<Rightarrow> bool" where
  "caught_index IndexError = True"
| "caught_index KeyError = False"
| "caught_index ValueError = False"
| "caught_index ZeroDivisionError = False"
| "caught_index OverflowError = False"
| "caught_index OSError = False"

section \<open>Spot price resolution (\<^verbatim>\<open>Data.get_option_data\<close>, lines 191-204)\<close>

text \<open>
  \<^verbatim>\<open>asset.info\<close> is a dictionary; the five keys the resolver reads are the fields
  of the record, \<open>None\<close> for a key that is not in the dictionary. The values are
  Python numbers: doubles, or ints within the range of a double. Their type \<open>'n\<close> is
  left open.
\<close>

record 'n quote_info =
  currentPrice :: "'n option"
  bid :: "'n option"
  ask :: "'n option"
  previousClose :: "'n option"
  navPrice :: "'n option"

text \<open>
  Python's arithmetic on these numbers is a parameter: the sum, the difference, the
  quotient \<^verbatim>\<open>x / y\<close> for a divisor that is not zero, \<^verbatim>\<open>abs\<close>, the comparison
  \<^verbatim>\<open>x > y\<close>, the test \<^verbatim>\<open>y == 0\<close> (on which \<^verbatim>\<open>x / y\<close> raises
  ZeroDivisionError), and the literals \<^verbatim>\<open>2\<close> and \<^verbatim>\<open>0.2\<close>. For doubles these are
  the rounded operations of IEEE 754, with their infinities and NaN.
\<close>

record 'n arith =
  py_add :: "'n \<Rightarrow> 'n \<Rightarrow> 'n"
  py_sub :: "'n \<Rightarrow> 'n \<Rightarrow> 'n"
  py_div :: "'n \<Rightarrow> 'n \<Rightarrow> 'n"
  py_abs :: "'n \<Rightarrow> 'n"
  py_gt :: "'n \<Rightarrow> 'n \<Rightarrow> bool"
  py_is_zero :: "'n \<Rightarrow> bool"
  lit_2 :: 'n
  lit_0_2 :: 'n

text \<open>\<^verbatim>\<open>asset.info[key]\<close>: a missing key raises KeyError.\<close>

definition info_get :: "'a option \<Rightarrow> py_error + 'a" where
  "info_get v = (case v of None \<Rightarrow> Inl KeyError | Some x \<Rightarrow> Inr x)"

text \<open>
  The body of the second \<^verbatim>\<open>try\<close> (lines 195-198), in the source's order of
  evaluation: bid, ask, the mid \<^verbatim>\<open>(bid + ask) / 2\<close>, previousClose twice (once in the
  numerator, once in the denominator, where a zero raises ZeroDivisionError), and
  previousClose once more when the mid is rejected.
\<close>

definition mid_or_close :: "'n arith \<Rightarrow> 'n quote_info \<Rightarrow> py_error + 'n" where
  "mid_or_close ops q =
     (case info_get (bid q) of Inl e \<Rightarrow> Inl e | Inr b \<Rightarrow>
      case info_get (ask q) of Inl e \<Rightarrow> Inl e | Inr a \<Rightarrow>
      let extracted_spot = py_div ops (py_add ops b a) (lit_2 ops) in
      case info_get (previousClose q) of Inl e \<Rightarrow> Inl e | Inr pc \<Rightarrow>
      if py_is_zero ops pc then Inl ZeroDivisionError
      else if py_gt ops (py_div ops (py_abs ops (py_sub ops extracted_spot pc)) pc)
                (lit_0_2 ops)
      then info_get (previousClose q)
      else Inr extracted_spot)"

text \<open>
  The nested \<^verbatim>\<open>try ... except KeyError\<close> of lines 191-203. Only KeyError is
  handled; any other error leaves the function.
\<close>

definition extract_spot :: "'n arith \<Rightarrow> 'n quote_info \<Rightarrow> py_error + 'n" where
  "extract_spot ops q =
     (case info_get (currentPrice q) of
        Inr c \<Rightarrow> Inr c
      | Inl KeyError \<Rightarrow>
          (case mid_or_close ops q of
             Inr m \<Rightarrow> Inr m
           | Inl KeyError \<Rightarrow>
               (case info_get (navPrice q) of
                  Inr n \<Rightarrow> Inr n
                | Inl KeyError \<Rightarrow> info_get (previousClose q)
                | Inl e \<Rightarrow> Inl e)
           | Inl e \<Rightarrow> Inl e)
      | Inl e \<Rightarrow> Inl e)"

text \<open>
  The fallback order in the words of the specification (section 4.1), for comparison
  with \<open>extract_spot\<close>: the current price; else the mid of bid and ask when both are
  present, rejected in favour of previousClose when it deviates from it by more than 20%;
  else the net asset value; else previousClose. \<open>None\<close> when all four steps are
  exhausted.
\<close>

definition spot_spec :: "'n arith \<Rightarrow> 'n quote_info \<Rightarrow> 'n option" where
  "spot_spec ops q =
     (case currentPrice q of Some c \<Rightarrow> Some c | None \<Rightarrow>
      (case (bid q, ask q) of
         (Some b, Some a) \<Rightarrow>
           (let mid = py_div ops (py_add ops b a) (lit_2 ops) in
            case previousClose q of
              Some pc \<Rightarrow>
                if py_gt ops (py_div ops (py_abs ops (py_sub ops mid pc)) pc) (lit_0_2 ops)
                then Some pc else Some mid
            | None \<Rightarrow> Some mid)
       | _ \<Rightarrow> (case navPrice q of Some n \<Rightarrow> Some n | None \<Rightarrow> previousClose q)))"

section \<open>Data frames\<close>

text \<open>
  A cell of a pandas DataFrame, as far as the fetchers look at it: a Python int, a
  numpy.int64 (the element of an int64 column, which is not an instance of \<^verbatim>\<open>int\<close>),
  a float (numpy.float64 is a subclass of \<^verbatim>\<open>float\<close>), a string, or a
  \<^verbatim>\<open>datetime.date\<close> given by its proleptic Gregorian ordinal.
\<close>

datatype cell = PyInt int | NpInt int | Float real | Str string | Date int

text \<open>
  A row maps column names to cells, in column order; a frame is the list of its rows
  under the default RangeIndex, as yfinance and \<^verbatim>\<open>pandas.read_html\<close> build them.
\<close>

type_synonym row = "(string \<times> cell) list"
type_synonym frame = "row list"

text \<open>\<^verbatim>\<open>frame[col] = value\<close>: the column is overwritten, or added as the last one.\<close>

definition set_column :: "string \<Rightarrow> cell \<Rightarrow> frame \<Rightarrow> frame" where
  "set_column col v f = map (AList.update col v) f"

text \<open>
  \<^verbatim>\<open>frame[col][0]\<close>: KeyError when the column is missing, and KeyError again when
  the frame has no row labelled 0.
\<close>

definition first_cell :: "string \<Rightarrow> frame \<Rightarrow> py_error + cell" where
  "first_cell col f =
     (case f of
        [] \<Rightarrow> Inl KeyError
      | r # _ \<Rightarrow> (case map_of r col of None \<Rightarrow> Inl KeyError | Some c \<Rightarrow> Inr c))"

text \<open>\<^verbatim>\<open>isinstance(x, (int, float, complex))\<close>\<close>

fun isinstance_number :: "cell \<Rightarrow> bool" where
  "isinstance_number (PyInt n) = True"
| "isinstance_number (NpInt n) = False"
| "isinstance_number (Float x) = True"
| "isinstance_number (Str s) = False"
| "isinstance_number (Date d) = False"

text \<open>
  \<^verbatim>\<open>s.isdigit()\<close>: the text is not empty and every character is a digit. Texts
  are lists of the code points below 256; of these \<^verbatim>\<open>str.isdigit\<close> accepts the ten
  decimal digits and the superscripts two, three and one (the code points 178, 179 and
  185).
\<close>

definition isdigit :: "string \<Rightarrow> bool" where
  "isdigit s =
     (s \<noteq> [] \<and>
      (\<forall>c \<in> set s. c \<in> set ''0123456789'' \<or> c = CHR 0xB2 \<or> c = CHR 0xB3 \<or> c = CHR 0xB9))"

text \<open>
  \<^verbatim>\<open>str(x).isdigit()\<close>: the text of an integer is its decimal digits, with a sign
  when negative; the text of a float always has a point, an exponent, \<^verbatim>\<open>inf\<close> or
  \<^verbatim>\<open>nan\<close>; the text of a date has hyphens.
\<close>

fun str_isdigit :: "cell \<Rightarrow> bool" where
  "str_isdigit (PyInt n) = (0 \<le> n)"
| "str_isdigit (NpInt n) = (0 \<le> n)"
| "str_isdigit (Float x) = False"
| "str_isdigit (Str s) = isdigit s"
| "str_isdigit (Date d) = False"

text \<open>\<^verbatim>\<open>frame.rename(columns=mapping)\<close>\<close>

definition rename_columns :: "(string \<times> string) list \<Rightarrow> frame \<Rightarrow> frame" where
  "rename_columns m f =
     map (map (\<lambda>(k, v). (case map_of m k of None \<Rightarrow> k | Some k' \<Rightarrow> k', v))) f"

section \<open>The API chain fetcher (\<^verbatim>\<open>Data.get_option_data\<close>, lines 186-278)\<close>

text \<open>
  What yfinance hands over: the quote facts \<^verbatim>\<open>asset.info\<close>, the expiry strings
  \<^verbatim>\<open>asset.options\<close>, and \<^verbatim>\<open>asset.option_chain(expiry)\<close>, which returns the two
  frames of an expiry or raises. \<^verbatim>\<open>pd.to_datetime(expiry).date()\<close> is a parameter
  of the fetchers: \<open>None\<close> when pandas raises ValueError on the text, else the date.
\<close>

record chain =
  calls :: frame
  puts :: frame

record 'n provider =
  info :: "'n quote_info"
  options :: "string list"
  option_chain :: "string \<Rightarrow> py_error + chain"

text \<open>
  The part of \<^verbatim>\<open>params\<close> and \<^verbatim>\<open>tables\<close> that the fetchers write:
  \<^verbatim>\<open>params['option_dict']\<close>, \<^verbatim>\<open>params['opt_except_list']\<close> and
  \<^verbatim>\<open>tables['full_data']\<close>. The dictionary keeps its insertion order.
\<close>

record fetch_state =
  option_dict :: "(string \<times> frame list) list"
  opt_except_list :: "string list"
  full_data :: frame

text \<open>
  \<^verbatim>\<open>params['option_dict'][expiry]\<close>, read after line 209 has stored a list under the
  key, and \<^verbatim>\<open>params['option_dict'][expiry].append(frame)\<close>.
\<close>

definition entry_of :: "fetch_state \<Rightarrow> string \<Rightarrow> frame list" where
  "entry_of s expiry = (case map_of (option_dict s) expiry of None \<Rightarrow> [] | Some fs \<Rightarrow> fs)"

definition append_entry :: "string \<Rightarrow> frame \<Rightarrow> fetch_state \<Rightarrow> fetch_state" where
  "append_entry expiry f s =
     s\<lparr>option_dict := AList.update expiry (entry_of s expiry @ [f]) (option_dict s)\<rparr>"

text \<open>
  \<^verbatim>\<open>frame['Expiry'] = date\<close> followed by
  \<^verbatim>\<open>tables['full_data'] = pd.concat([tables['full_data'], frame])\<close>. The rows
  keep the columns they have: the alignment of \<^verbatim>\<open>pd.concat\<close>, which gives a frame
  the columns it lacks filled with NaN, is not modelled. Where the stamped frame is the
  object stored in \<^verbatim>\<open>option_dict\<close> (lines 240 and 258), the copy stored in the
  state stays without its Expiry column; the table, which is what the properties below
  read, has it.
\<close>

definition append_stamped :: "int \<Rightarrow> frame \<Rightarrow> fetch_state \<Rightarrow> fetch_state" where
  "append_stamped d f s = s\<lparr>full_data := full_data s @ set_column ''Expiry'' (Date d) f\<rparr>"

text \<open>
  The body of the inner \<^verbatim>\<open>try\<close> (lines 220-236). The result is the state reached
  and the exception raised there, if any: what was stored before a raise stays stored.
\<close>

definition api_puts_with_calls ::
  "(string \<Rightarrow> int option) \<Rightarrow> string \<Rightarrow> frame \<Rightarrow> frame \<Rightarrow> fetch_state
     \<Rightarrow> fetch_state \<times> py_error option" where
  "api_puts_with_calls to_datetime expiry calls_f chain_puts s =
     (let puts_f = set_column ''Option Type'' (Str ''put'') chain_puts in
      if length puts_f > 0 then
        (case first_cell ''strike'' puts_f of
           Inl e \<Rightarrow> (s, Some e)
         | Inr c \<Rightarrow>
             if isinstance_number c then
               (let s1 = append_entry expiry puts_f s in
                case to_datetime expiry of
                  None \<Rightarrow> (s1, Some ValueError)
                | Some d \<Rightarrow> (append_stamped d (calls_f @ puts_f) s1, None))
             else (s, None))
      else (s, None))"

text \<open>The body of the outer \<^verbatim>\<open>try\<close> (lines 212-244), with the inner handler.\<close>

definition api_calls ::
  "(string \<Rightarrow> int option) \<Rightarrow> string \<Rightarrow> chain \<Rightarrow> fetch_state
     \<Rightarrow> fetch_state \<times> py_error option" where
  "api_calls to_datetime expiry ch s =
     (let calls_f = set_column ''Option Type'' (Str ''call'') (calls ch) in
      if length calls_f > 0 then
        (case first_cell ''strike'' calls_f of
           Inl e \<Rightarrow> (s, Some e)
         | Inr c \<Rightarrow>
             if isinstance_number c then
               (case api_puts_with_calls to_datetime expiry calls_f (puts ch)
                       (append_entry expiry calls_f s) of
                  (s2, None) \<Rightarrow> (s2, None)
                | (s2, Some e) \<Rightarrow>
                    if caught_api e then
                      (case to_datetime expiry of
                         None \<Rightarrow> (s2, Some ValueError)
                       | Some d \<Rightarrow> (append_stamped d calls_f s2, None))
                    else (s2, Some e))
             else (s, None))
      else (s, None))"

text \<open>
  The body of the \<^verbatim>\<open>try\<close> in the outer handler (lines 249-262). Line 256 assigns
  to index 1 of the list stored for the expiry, which raises IndexError when the list has
  fewer than two entries.
\<close>

definition api_puts_only ::
  "(string \<Rightarrow> int option) \<Rightarrow> string \<Rightarrow> frame \<Rightarrow> fetch_state
     \<Rightarrow> fetch_state \<times> py_error option" where
  "api_puts_only to_datetime expiry chain_puts s =
     (let puts_f = set_column ''Option Type'' (Str ''put'') chain_puts in
      if length puts_f > 0 then
        (case first_cell ''strike'' puts_f of
           Inl e \<Rightarrow> (s, Some e)
         | Inr c \<Rightarrow>
             if isinstance_number c then
               (if length (entry_of s expiry) < 2 then (s, Some IndexError)
                else
                  (let s1 = s\<lparr>option_dict :=
                              AList.update expiry ((entry_of s expiry)[1 := puts_f])
                                (option_dict s)\<rparr> in
                   case to_datetime expiry of
                     None \<Rightarrow> (s1, Some ValueError)
                   | Some d \<Rightarrow> (append_stamped d puts_f s1, None)))
             else (s, None))
      else (s, None))"

text \<open>One turn of the loop over the expiries, after the chain has been fetched.\<close>

definition api_expiry ::
  "(string \<Rightarrow> int option) \<Rightarrow> string \<Rightarrow> chain \<Rightarrow> fetch_state \<Rightarrow> py_error + fetch_state" where
  "api_expiry to_datetime expiry ch s0 =
     (let s = s0\<lparr>option_dict := AList.update expiry [] (option_dict s0)\<rparr> in
      case api_calls to_datetime expiry ch s of
        (s1, None) \<Rightarrow> Inr s1
      | (s1, Some e) \<Rightarrow>
          if caught_api e then
            (case api_puts_only to_datetime expiry (puts ch) s1 of
               (s2, None) \<Rightarrow> Inr s2
             | (s2, Some e2) \<Rightarrow>
                 if caught_api e2
                 then Inr (s2\<lparr>opt_except_list := opt_except_list s2 @ [expiry]\<rparr>)
                 else Inl e2)
          else Inl e)"

text \<open>
  The loop of line 208. \<^verbatim>\<open>asset.option_chain(expiry)\<close> is called outside every
  \<^verbatim>\<open>try\<close>: when it raises, the run ends there.
\<close>

fun api_loop ::
  "(string \<Rightarrow> int option) \<Rightarrow> (string \<Rightarrow> py_error + chain) \<Rightarrow> string list \<Rightarrow> fetch_state
     \<Rightarrow> py_error + fetch_state" where
  "api_loop to_datetime oc [] s = Inr s"
| "api_loop to_datetime oc (expiry # rest) s =
     (case oc expiry of
        Inl e \<Rightarrow> Inl e
      | Inr ch \<Rightarrow>
          (case api_expiry to_datetime expiry ch s of
             Inl e \<Rightarrow> Inl e
           | Inr s1 \<Rightarrow> api_loop to_datetime oc rest s1))"

text \<open>The provider's column names and the canonical ones (lines 267-276).\<close>

definition canonical_names :: "(string \<times> string) list" where
  "canonical_names =
     [(''lastPrice'', ''Last Price''), (''bid'', ''Bid''), (''ask'', ''Ask''),
      (''lastTradeDate'', ''Last Trade Date''), (''strike'', ''Strike''),
      (''openInterest'', ''Open Interest''), (''volume'', ''Volume''),
      (''impliedVolatility'', ''Implied Volatility'')]"

definition empty_state :: fetch_state where
  "empty_state = \<lparr>option_dict = [], opt_except_list = [], full_data = []\<rparr>"

text \<open>
  \<^verbatim>\<open>get_option_data\<close>: the resolved spot and the state with the renamed table, or
  the exception that ended the run.
\<close>

definition get_option_data ::
  "'n arith \<Rightarrow> (string \<Rightarrow> int option) \<Rightarrow> 'n provider \<Rightarrow> py_error + 'n \<times> fetch_state" where
  "get_option_data ops to_datetime p =
     (case extract_spot ops (info p) of
        Inl e \<Rightarrow> Inl e
      | Inr extracted_spot \<Rightarrow>
          (case api_loop to_datetime (option_chain p) (options p) empty_state of
             Inl e \<Rightarrow> Inl e
           | Inr s \<Rightarrow>
               Inr (extracted_spot,
                    s\<lparr>full_data := rename_columns canonical_names (full_data s)\<rparr>)))"


section \<open>The legacy scrape fetcher (\<^verbatim>\<open>Data.extractoptions\<close>, lines 280-517)\<close>

text \<open>\<^verbatim>\<open>d[key]\<close> on a dictionary and \<^verbatim>\<open>xs[i]\<close> on a list, \<open>i\<close> not negative.\<close>

definition dict_get :: "('k \<times> 'v) list \<Rightarrow> 'k \<Rightarrow> py_error + 'v" where
  "dict_get d k = (case map_of d k of None \<Rightarrow> Inl KeyError | Some v \<Rightarrow> Inr v)"

definition list_get :: "'a list \<Rightarrow> nat \<Rightarrow> py_error + 'a" where
  "list_get xs i = (if i < length xs then Inr (xs ! i) else Inl IndexError)"

text \<open>
  \<^verbatim>\<open>dict(pairs)\<close>: a key keeps the place of its first pair and the value of its
  last one.
\<close>

definition py_dict :: "('k \<times> 'v) list \<Rightarrow> ('k \<times> 'v) list" where
  "py_dict ps = foldl (\<lambda>d (k, v). AList.update k v d) [] ps"

subsection \<open>URL discovery (\<^verbatim>\<open>_extracturls\<close>)\<close>




subsection \<open>Page fetch (\<^verbatim>\<open>_extract_web_data\<close>) and table parse (\<^verbatim>\<open>_read_web_data\<close>)\<close>

text \<open>
  \<^verbatim>\<open>UrlOpener\<close> is not among the sources. It is a parameter: \<^verbatim>\<open>urlopener.open(url)\<close>
  raises or returns a response, whose \<^verbatim>\<open>text\<close> raises or is the page. The state
  of the fetch stage is the dictionary \<^verbatim>\<open>raw_web_data\<close>, together with the log of
  the URLs opened and of the seconds slept, in order.
\<close>

type_synonym transport = "string \<Rightarrow> py_error + (py_error + string)"

record web_state =
  raw_web_data :: "(string \<times> string) list"
  opened :: "string list"
  slept :: "int list"

text \<open>\<^verbatim>\<open>time.sleep(secs)\<close> raises ValueError on a negative length.\<close>

definition sleep :: "int \<Rightarrow> web_state \<Rightarrow> py_error + web_state" where
  "sleep secs s = (if secs < 0 then Inl ValueError else Inr (s\<lparr>slept := slept s @ [secs]\<rparr>))"

text \<open>
  The loop of lines 407-421. The call of \<^verbatim>\<open>open\<close> stands before the
  \<^verbatim>\<open>try\<close>; the handler names ValueError only. The result is the state reached and
  the exception that ended the loop, if any.
\<close>

fun extract_web_data ::
  "transport \<Rightarrow> int \<Rightarrow> (string \<times> string) list \<Rightarrow> web_state \<Rightarrow> web_state \<times> py_error option" where
  "extract_web_data urlopen wait [] s = (s, None)"
| "extract_web_data urlopen wait ((input_date, url) # rest) s =
     (let s0 = s\<lparr>opened := opened s @ [url]\<rparr> in
      case urlopen url of
        Inl e \<Rightarrow> (s0, Some e)
      | Inr weburl \<Rightarrow>
          (case (case weburl of
                   Inl e \<Rightarrow> (s0, Some e)
                 | Inr text \<Rightarrow>
                     (let s1 = s0\<lparr>raw_web_data :=
                                  AList.update input_date text (raw_web_data s0)\<rparr> in
                      case sleep wait s1 of Inl e \<Rightarrow> (s1, Some e) | Inr s2 \<Rightarrow> (s2, None))) of
             (s3, None) \<Rightarrow> extract_web_data urlopen wait rest s3
           | (s3, Some e) \<Rightarrow>
               if e = ValueError then
                 (case sleep 5 s3 of
                    Inl e' \<Rightarrow> (s3, Some e')
                  | Inr s4 \<Rightarrow> extract_web_data urlopen wait rest s4)
               else (s3, Some e)))"

text \<open>
  The loop of lines 433-446, with \<^verbatim>\<open>pd.read_html\<close> as a parameter (it raises
  ValueError on a page without tables). \<^verbatim>\<open>params['raw_web_data'][input_date]\<close> raises
  KeyError for a date that has no page, and the handler names ValueError only. The state is
  the pair of \<^verbatim>\<open>option_dict\<close> and \<^verbatim>\<open>url_except_dict\<close>.
\<close>

fun read_web_data ::
  "(string \<Rightarrow> py_error + frame list) \<Rightarrow> (string \<times> string) list \<Rightarrow> (string \<times> string) list
     \<Rightarrow> (string \<times> frame list) list \<times> (string \<times> string) list
     \<Rightarrow> py_error + (string \<times> frame list) list \<times> (string \<times> string) list" where
  "read_web_data read_html raw [] acc = Inr acc"
| "read_web_data read_html raw ((input_date, url) # rest) (od, url_except_dict) =
     (case (case dict_get raw input_date of
              Inl e \<Rightarrow> Inl e
            | Inr page \<Rightarrow>
                (case read_html page of
                   Inl e \<Rightarrow> Inl e
                 | Inr option_frame \<Rightarrow> Inr (AList.update input_date option_frame od))) of
        Inr od' \<Rightarrow> read_web_data read_html raw rest (od', url_except_dict)
      | Inl e \<Rightarrow>
          if e = ValueError
          then read_web_data read_html raw rest
                 (od, AList.update input_date url url_except_dict)
          else Inl e)"

subsection \<open>Validation and accumulation (\<^verbatim>\<open>_process_options\<close>)\<close>

text \<open>The inner \<^verbatim>\<open>try\<close> (lines 471-486): the new table, or the exception.\<close>

definition legacy_puts_with_calls ::
  "(string \<Rightarrow> int option) \<Rightarrow> (string \<times> frame list) list \<Rightarrow> string \<Rightarrow> frame \<Rightarrow> frame
     \<Rightarrow> py_error + frame" where
  "legacy_puts_with_calls to_datetime od input_date calls_f table =
     (case dict_get od input_date of Inl e \<Rightarrow> Inl e | Inr fs \<Rightarrow>
      case list_get fs 1 of Inl e \<Rightarrow> Inl e | Inr raw_puts \<Rightarrow>
      let puts_f = set_column ''Option Type'' (Str ''put'') raw_puts in
      case first_cell ''Strike'' puts_f of Inl e \<Rightarrow> Inl e | Inr c \<Rightarrow>
      if str_isdigit c then
        (case to_datetime input_date of
           None \<Rightarrow> Inl ValueError
         | Some d \<Rightarrow> Inr (table @ set_column ''Expiry'' (Date d) (calls_f @ puts_f)))
      else Inr table)"

text \<open>The outer \<^verbatim>\<open>try\<close> (lines 462-495), with the inner handler.\<close>

definition legacy_calls ::
  "(string \<Rightarrow> int option) \<Rightarrow> (string \<times> frame list) list \<Rightarrow> string \<Rightarrow> frame
     \<Rightarrow> py_error + frame" where
  "legacy_calls to_datetime od input_date table =
     (case dict_get od input_date of Inl e \<Rightarrow> Inl e | Inr fs \<Rightarrow>
      case list_get fs 0 of Inl e \<Rightarrow> Inl e | Inr raw_calls \<Rightarrow>
      let calls_f = set_column ''Option Type'' (Str ''call'') raw_calls in
      case first_cell ''Strike'' calls_f of Inl e \<Rightarrow> Inl e | Inr c \<Rightarrow>
      if str_isdigit c then
        (case legacy_puts_with_calls to_datetime od input_date calls_f table of
           Inr t \<Rightarrow> Inr t
         | Inl e \<Rightarrow>
             if caught_index e then
               (case to_datetime input_date of
                  None \<Rightarrow> Inl ValueError
                | Some d \<Rightarrow> Inr (table @ set_column ''Expiry'' (Date d) calls_f))
             else Inl e)
      else Inr table)"

text \<open>The \<^verbatim>\<open>try\<close> in the outer handler (lines 499-512).\<close>

definition legacy_puts_only ::
  "(string \<Rightarrow> int option) \<Rightarrow> (string \<times> frame list) list \<Rightarrow> string \<Rightarrow> frame
     \<Rightarrow> py_error + frame" where
  "legacy_puts_only to_datetime od input_date table =
     (case dict_get od input_date of Inl e \<Rightarrow> Inl e | Inr fs \<Rightarrow>
      case list_get fs 1 of Inl e \<Rightarrow> Inl e | Inr raw_puts \<Rightarrow>
      let puts_f = set_column ''Option Type'' (Str ''put'') raw_puts in
      case first_cell ''Strike'' puts_f of Inl e \<Rightarrow> Inl e | Inr c \<Rightarrow>
      if str_isdigit c then
        (case to_datetime input_date of
           None \<Rightarrow> Inl ValueError
         | Some d \<Rightarrow> Inr (table @ set_column ''Expiry'' (Date d) puts_f))
      else Inr table)"

text \<open>
  One turn of the loop of line 460. \<open>option_dict\<close> is left as it was handed in: the
  columns that lines 467, 475, 491 and 508 write into its frames are in the rows that
  reach the table, not in the stored frames, which no property below reads after the
  run.
\<close>

definition legacy_date ::
  "(string \<Rightarrow> int option) \<Rightarrow> string \<Rightarrow> fetch_state \<Rightarrow> py_error + fetch_state" where
  "legacy_date to_datetime input_date s =
     (case legacy_calls to_datetime (option_dict s) input_date (full_data s) of
        Inr t \<Rightarrow> Inr (s\<lparr>full_data := t\<rparr>)
      | Inl e \<Rightarrow>
          if caught_index e then
            (case legacy_puts_only to_datetime (option_dict s) input_date (full_data s) of
               Inr t \<Rightarrow> Inr (s\<lparr>full_data := t\<rparr>)
             | Inl e2 \<Rightarrow>
                 if caught_index e2
                 then Inr (s\<lparr>opt_except_list := opt_except_list s @ [input_date]\<rparr>)
                 else Inl e2)
          else Inl e)"

fun legacy_loop ::
  "(string \<Rightarrow> int option) \<Rightarrow> string list \<Rightarrow> fetch_state \<Rightarrow> py_error + fetch_state" where
  "legacy_loop to_datetime [] s = Inr s"
| "legacy_loop to_datetime (input_date # rest) s =
     (case legacy_date to_datetime input_date s of
        Inl e \<Rightarrow> Inl e
      | Inr s1 \<Rightarrow> legacy_loop to_datetime rest s1)"

text \<open>
  \<^verbatim>\<open>_process_options(params, tables)\<close>: the exception list starts empty, the table
  is the one handed in.
\<close>

definition process_options ::
  "(string \<Rightarrow> int option) \<Rightarrow> string list \<Rightarrow> (string \<times> frame list) list \<Rightarrow> frame
     \<Rightarrow> py_error + fetch_state" where
  "process_options to_datetime date_list od table =
     legacy_loop to_datetime date_list
       \<lparr>option_dict = od, opt_except_list = [], full_data = table\<rparr>"

text \<open>
  \<^verbatim>\<open>extractoptions\<close> after URL discovery: fetch, parse, then process every date of
  \<^verbatim>\<open>option_dict\<close> on an empty table. The result keeps the fetch log, the
  URL-exception mapping and the final state.
\<close>

definition extractoptions ::
  "transport \<Rightarrow> (string \<Rightarrow> py_error + frame list) \<Rightarrow> (string \<Rightarrow> int option) \<Rightarrow> int
     \<Rightarrow> (string \<times> string) list
     \<Rightarrow> py_error + web_state \<times> (string \<times> string) list \<times> fetch_state" where
  "extractoptions urlopen read_html to_datetime wait url_dict =
     (case extract_web_data urlopen wait url_dict
             \<lparr>raw_web_data = [], opened = [], slept = []\<rparr> of
        (w, Some e) \<Rightarrow> Inl e
      | (w, None) \<Rightarrow>
          (case read_web_data read_html (raw_web_data w) url_dict ([], []) of
             Inl e \<Rightarrow> Inl e
           | Inr (od, url_except_dict) \<Rightarrow>
               (case process_options to_datetime (map fst od) od [] of
                  Inl e \<Rightarrow> Inl e
                | Inr s \<Rightarrow> Inr (w, url_except_dict, s))))"


section \<open>The precomputed-data path (\<^verbatim>\<open>Volatility.__init__\<close>, \<^verbatim>\<open>Data.process_df_option_data\<close>)\<close>

text \<open>
  \<^verbatim>\<open>df[col]\<close> raises KeyError when the column is missing; here a column is present
  when every row has it, so that a frame without rows has every column.
  \<^verbatim>\<open>df[col] = series\<close> writes the series row by row, and \<^verbatim>\<open>df[[c1, c2, ...]]\<close>
  keeps the listed columns in the listed order.
\<close>

definition get_column :: "string \<Rightarrow> frame \<Rightarrow> py_error + cell list" where
  "get_column col f =
     (case those (map (\<lambda>r. map_of r col) f) of None \<Rightarrow> Inl KeyError | Some cs \<Rightarrow> Inr cs)"

definition assign_column :: "string \<Rightarrow> cell list \<Rightarrow> frame \<Rightarrow> frame" where
  "assign_column col cs f = map (\<lambda>(r, c). AList.update col c r) (zip f cs)"

definition select_row :: "string list \<Rightarrow> row \<Rightarrow> row option" where
  "select_row cols r = those (map (\<lambda>col. map_option (Pair col) (map_of r col)) cols)"

definition select_columns :: "string list \<Rightarrow> frame \<Rightarrow> py_error + frame" where
  "select_columns cols f =
     (case those (map (select_row cols) f) of None \<Rightarrow> Inl KeyError | Some g \<Rightarrow> Inr g)"

definition canonical_columns :: "string list" where
  "canonical_columns =
     [''Contract Symbol'', ''Last Price'', ''Bid'', ''Ask'', ''Last Trade Date'', ''Expiry'',
      ''Strike'', ''Option Type'', ''Open Interest'', ''Volume'', ''Implied Volatility'',
      ''Discount Rate'']"

text \<open>Lines 108-111 of \<^verbatim>\<open>volatility.py\<close>.\<close>

definition select_discount_rate :: "string \<Rightarrow> frame \<Rightarrow> py_error + frame" where
  "select_discount_rate discount_type df =
     (if discount_type = ''smooth'' then
        (case get_column ''Smooth Discount Rate'' df of
           Inl e \<Rightarrow> Inl e
         | Inr cs \<Rightarrow> Inr (assign_column ''Discount Rate'' cs df))
      else
        (case get_column ''Direct Discount Rate'' df of
           Inl e \<Rightarrow> Inl e
         | Inr cs \<Rightarrow> Inr (assign_column ''Discount Rate'' cs df)))"

text \<open>
  \<^verbatim>\<open>process_df_option_data\<close> up to \<^verbatim>\<open>tables['full_data']\<close>: the spot read with
  \<^verbatim>\<open>.iloc[0]\<close> (IndexError on a frame without rows) and the projected table. The
  stages \<^verbatim>\<open>DataPrep.transform\<close> and \<^verbatim>\<open>DataPrep.combine\<close> that follow are not
  among the sources and are left out of both paths.
\<close>

definition process_df_option_data :: "frame \<Rightarrow> py_error + cell \<times> frame" where
  "process_df_option_data df =
     (case get_column ''Spot Price'' df of Inl e \<Rightarrow> Inl e | Inr spots \<Rightarrow>
      case list_get spots 0 of Inl e \<Rightarrow> Inl e | Inr extracted_spot \<Rightarrow>
      case select_columns canonical_columns df of Inl e \<Rightarrow> Inl e | Inr t \<Rightarrow>
      Inr (extracted_spot, t))"

text \<open>
  The branch of lines 105-115: \<^verbatim>\<open>'precomputed_data' in params\<close> is the test, the
  entry of \<open>params\<close> being \<open>None\<close> when the key is missing. The result says which
  path ran.
\<close>

datatype 'n run =
    Precomputed_path "py_error + cell \<times> frame"
  | Fetch_path "py_error + 'n \<times> fetch_state"

definition volatility_init ::
  "'n arith \<Rightarrow> (string \<Rightarrow> int option) \<Rightarrow> 'n provider \<Rightarrow> string \<Rightarrow> frame option \<Rightarrow> 'n run" where
  "volatility_init ops to_datetime p discount_type precomputed_data =
     (case precomputed_data of
        Some df \<Rightarrow>
          Precomputed_path
            (case select_discount_rate discount_type df of
               Inl e \<Rightarrow> Inl e
             | Inr df' \<Rightarrow> process_df_option_data df')
      | None \<Rightarrow> Fetch_path (get_option_data ops to_datetime p))"

section \<open>The trading calendar (\<^verbatim>\<open>Data.trading_calendar\<close>, lines 560-588)\<close>

text \<open>
  A pandas holiday rule has a name and yields its dates between two days; dates are
  proleptic Gregorian ordinals. The rule tables \<^verbatim>\<open>USFederalHolidayCalendar.rules\<close> and
  \<^verbatim>\<open>GoodFriday\<close> are parameters.
\<close>

record holiday_rule =
  rule_name :: string
  rule_dates :: "int \<Rightarrow> int \<Rightarrow> int list"

text \<open>Line 562: the rules of the federal calendar but those at the indices 6 and 7.\<close>

definition custom_rules :: "holiday_rule list \<Rightarrow> holiday_rule list" where
  "custom_rules rules = map snd (filter (\<lambda>(i, rule). i \<noteq> 6 \<and> i \<noteq> 7) (enumerate 0 rules))"

text \<open>
  \<^verbatim>\<open>HolidayCalendarFactory(name, base, other)\<close> of pandas merges the two rule lists
  in a dictionary keyed by rule name, the rules of \<open>other\<close> first and those of
  \<open>base\<close> written over them.
\<close>

definition merge_class :: "holiday_rule list \<Rightarrow> holiday_rule list \<Rightarrow> holiday_rule list" where
  "merge_class base other =
     map snd (py_dict (map (\<lambda>h. (rule_name h, h)) other @ map (\<lambda>h. (rule_name h, h)) base))"

text \<open>
  \<^verbatim>\<open>calendar.holidays(start, end)\<close> of pandas: the dates of every rule, concatenated,
  sorted and cut to the range, both ends included.
\<close>

definition holidays :: "holiday_rule list \<Rightarrow> int \<Rightarrow> int \<Rightarrow> int list" where
  "holidays rules start end =
     filter (\<lambda>d. start \<le> d \<and> d \<le> end)
       (sort (concat (map (\<lambda>rule. rule_dates rule start end) rules)))"

definition trading_calendar :: "holiday_rule list \<Rightarrow> holiday_rule \<Rightarrow> int \<Rightarrow> int list" where
  "trading_calendar federal_rules good_friday today =
     holidays (merge_class (custom_rules federal_rules) [good_friday]) today (today + 2500)"


section \<open>Vocabulary of the properties\<close>

text \<open>
  The checks the API fetcher makes on one side of an expiry. A side is valid when it has
  rows and the strike of its first row is a number; it raises when it has rows and the
  first row has no strike; otherwise (no rows, or a first strike that is not a number)
  the fetcher passes over it without raising.
\<close>

definition valid_side :: "frame \<Rightarrow> bool" where
  "valid_side f =
     (length f > 0 \<and>
      (case first_cell ''strike'' f of Inl e \<Rightarrow> False | Inr c \<Rightarrow> isinstance_number c))"

definition raising_side :: "frame \<Rightarrow> bool" where
  "raising_side f =
     (length f > 0 \<and> (case first_cell ''strike'' f of Inl e \<Rightarrow> True | Inr c \<Rightarrow> False))"

text \<open>
  The fragment of an expiry in the API fetcher: the rows it adds to the table, and
  whether the expiry is recorded as failed.
\<close>

definition api_fragment :: "(string \<Rightarrow> int option) \<Rightarrow> string \<Rightarrow> chain \<Rightarrow> frame" where
  "api_fragment to_datetime expiry ch =
     (let c = set_column ''Option Type'' (Str ''call'') (calls ch);
          p = set_column ''Option Type'' (Str ''put'') (puts ch) in
      case to_datetime expiry of
        None \<Rightarrow> []
      | Some d \<Rightarrow>
          if valid_side (calls ch) then
            (if valid_side (puts ch) then set_column ''Expiry'' (Date d) (c @ p)
             else if raising_side (puts ch) then set_column ''Expiry'' (Date d) c
             else [])
          else [])"

definition api_failed :: "(string \<Rightarrow> int option) \<Rightarrow> string \<Rightarrow> chain \<Rightarrow> bool" where
  "api_failed to_datetime expiry ch =
     ((valid_side (puts ch) \<or> raising_side (puts ch)) \<and>
      (raising_side (calls ch) \<or> (valid_side (calls ch) \<and> to_datetime expiry = None)))"

text \<open>The chain of an expiry whose fetch returned.\<close>

definition chain_of :: "(string \<Rightarrow> py_error + chain) \<Rightarrow> string \<Rightarrow> chain" where
  "chain_of oc expiry = (case oc expiry of Inr ch \<Rightarrow> ch | Inl e \<Rightarrow> \<lparr>calls = [], puts = []\<rparr>)"

text \<open>
  The check the legacy fetcher makes on a table: the text of the first strike is made of
  digits. The fragment of a date is read off the tables parsed from its page.
\<close>

definition digit_side :: "frame \<Rightarrow> bool" where
  "digit_side f = (case first_cell ''Strike'' f of Inl e \<Rightarrow> False | Inr c \<Rightarrow> str_isdigit c)"

definition legacy_fragment :: "int \<Rightarrow> frame list \<Rightarrow> frame" where
  "legacy_fragment d fs =
     (case fs of
        [] \<Rightarrow> []
      | [c] \<Rightarrow>
          if digit_side c
          then set_column ''Expiry'' (Date d) (set_column ''Option Type'' (Str ''call'') c)
          else []
      | c # p # _ \<Rightarrow>
          if digit_side c \<and> digit_side p
          then set_column ''Expiry'' (Date d)
                 (set_column ''Option Type'' (Str ''call'') c @
                  set_column ''Option Type'' (Str ''put'') p)
          else [])"

definition tables_of :: "(string \<times> frame list) list \<Rightarrow> string \<Rightarrow> frame list" where
  "tables_of od input_date = (case map_of od input_date of None \<Rightarrow> [] | Some fs \<Rightarrow> fs)"


text \<open>
  The two sides of a date in the legacy fetcher are the first and the second table of
  its page; a side is valid when the table is there and passes the digit check.
\<close>

definition legacy_call_side_valid :: "frame list \<Rightarrow> bool" where
  "legacy_call_side_valid fs = (case fs of [] \<Rightarrow> False | c # _ \<Rightarrow> digit_side c)"

definition legacy_put_side_valid :: "frame list \<Rightarrow> bool" where
  "legacy_put_side_valid fs = (case fs of c # p # _ \<Rightarrow> digit_side p | _ \<Rightarrow> False)"



text \<open>
  The discount-rate column named by the discount-type flag, and the columns the
  precomputed-data path reads from its input.
\<close>

definition discount_column :: "string \<Rightarrow> string" where
  "discount_column discount_type =
     (if discount_type = ''smooth'' then ''Smooth Discount Rate'' else ''Direct Discount Rate'')"

definition input_columns :: "string \<Rightarrow> string list" where
  "input_columns discount_type =
     discount_column discount_type # ''Spot Price'' #
     filter (\<lambda>col. col \<noteq> ''Discount Rate'') canonical_columns"

definition has_columns :: "string list \<Rightarrow> frame \<Rightarrow> bool" where
  "has_columns cols f = (\<forall>r \<in> set f. \<forall>col \<in> set cols. map_of r col \<noteq> None)"

text \<open>The canonical table and the failed-expiry list of a fetch-path run.\<close>

definition run_table :: "py_error + 'n \<times> fetch_state \<Rightarrow> py_error + frame" where
  "run_table r = (case r of Inl e \<Rightarrow> Inl e | Inr (spot, s) \<Rightarrow> Inr (full_data s))"

definition run_failed :: "py_error + 'n \<times> fetch_state \<Rightarrow> py_error + string list" where
  "run_failed r = (case r of Inl e \<Rightarrow> Inl e | Inr (spot, s) \<Rightarrow> Inr (opt_except_list s))"

text \<open>The table and the failed-expiry list of a legacy run.\<close>

definition scrape_table ::
  "py_error + web_state \<times> (string \<times> string) list \<times> fetch_state \<Rightarrow> py_error + frame" where
  "scrape_table r = (case r of Inl e \<Rightarrow> Inl e | Inr (w, url_except_dict, s) \<Rightarrow> Inr (full_data s))"

definition scrape_failed ::
  "py_error + web_state \<times> (string \<times> string) list \<times> fetch_state \<Rightarrow> py_error + string list" where
  "scrape_failed r =
     (case r of Inl e \<Rightarrow> Inl e | Inr (w, url_except_dict, s) \<Rightarrow> Inr (opt_except_list s))"

section \<open>Example inputs\<close>

text \<open>
  The arithmetic of the examples: exact arithmetic on real numbers. On the numbers of the
  examples the doubles give the same results.
\<close>

definition exact_arith :: "real arith" where
  "exact_arith =
     \<lparr>py_add = (\<lambda>x y. x + y), py_sub = (\<lambda>x y. x - y), py_div = (\<lambda>x y. x / y),
      py_abs = (\<lambda>x. \<bar>x\<bar>), py_gt = (\<lambda>x y. x > y), py_is_zero = (\<lambda>x. x = 0),
      lit_2 = 2, lit_0_2 = 0.2\<rparr>"

text \<open>
  A quote with a current price of 100; the date parser of the examples, which reads the
  two expiry texts used below (2025-03-21 is the day 739331, 2025-04-18 the day 739359)
  and raises on any other text.
\<close>

definition quote_100 :: "real quote_info" where
  "quote_100 = \<lparr>currentPrice = Some 100, bid = None, ask = None, previousClose = None,
                 navPrice = None\<rparr>"

definition example_to_datetime :: "string \<Rightarrow> int option" where
  "example_to_datetime text =
     (if text = ''2025-03-21'' then Some 739331
      else if text = ''2025-04-18'' then Some 739359 else None)"

text \<open>Five rows with float strikes, three such rows, and one row without a strike.\<close>

definition five_rows :: frame where
  "five_rows =
     [[(''strike'', Float 100)], [(''strike'', Float 105)], [(''strike'', Float 110)],
      [(''strike'', Float 115)], [(''strike'', Float 120)]]"

definition three_rows :: frame where
  "three_rows = [[(''strike'', Float 90)], [(''strike'', Float 95)], [(''strike'', Float 100)]]"

definition row_without_strike :: frame where
  "row_without_strike = [[(''lastPrice'', Float 1)]]"

text \<open>A provider with the single expiry 2025-03-21 and the given chain for it.\<close>

definition one_expiry_provider :: "real quote_info \<Rightarrow> chain \<Rightarrow> real provider" where
  "one_expiry_provider q ch =
     \<lparr>info = q, options = [''2025-03-21''], option_chain = (\<lambda>expiry. Inr ch)\<rparr>"


text \<open>Two rows, the second with a strike that is not a number; one valid row.\<close>

definition mixed_rows :: frame where
  "mixed_rows = [[(''strike'', Float 100)], [(''strike'', Str ''-'')]]"

definition one_row :: frame where
  "one_row = [[(''strike'', Float 90)]]"

text \<open>The parsed pages of a legacy run with one date and a single table of one row.\<close>

definition one_table_date :: "(string \<times> frame list) list" where
  "one_table_date = [(''2025-04-18'', [[[(''Strike'', Str ''100'')]]])]"

text \<open>
  Two discovered URLs; a transport whose response for the first URL raises ValueError
  when its text is read, and one whose \<^verbatim>\<open>open\<close> raises on the first URL; two
  table parsers that find one table of one row on every page, with the strike 100 and
  with the strike \<^verbatim>\<open>-\<close>.
\<close>

definition two_urls :: "(string \<times> string) list" where
  "two_urls = [(''2025-03-21'', ''url_a''), (''2025-04-18'', ''url_b'')]"

definition text_fault_transport :: transport where
  "text_fault_transport url = (if url = ''url_a'' then Inr (Inl ValueError) else Inr (Inr ''page''))"

definition open_fault_transport :: transport where
  "open_fault_transport url = (if url = ''url_a'' then Inl OSError else Inr (Inr ''page''))"

definition one_table_html :: "string \<Rightarrow> py_error + frame list" where
  "one_table_html page = Inr [[[(''Strike'', Str ''100'')]]]"

definition dash_table_html :: "string \<Rightarrow> py_error + frame list" where
  "dash_table_html page = Inr [[[(''Strike'', Str ''-'')]]]"

definition no_web_data :: web_state where
  "no_web_data = \<lparr>raw_web_data = [], opened = [], slept = []\<rparr>"







text \<open>A precomputed table of two contracts, with both discount-rate columns.\<close>

definition precomputed_row :: "string \<Rightarrow> real \<Rightarrow> real \<Rightarrow> real \<Rightarrow> row" where
  "precomputed_row symbol k smooth direct =
     [(''Contract Symbol'', Str symbol), (''Last Price'', Float 1), (''Bid'', Float 1),
      (''Ask'', Float 2), (''Last Trade Date'', Date 739300), (''Expiry'', Date 739331),
      (''Strike'', Float k), (''Option Type'', Str ''call''), (''Open Interest'', PyInt 10),
      (''Volume'', PyInt 5), (''Implied Volatility'', Float 0.2), (''Spot Price'', Float 100),
      (''Smooth Discount Rate'', Float smooth), (''Direct Discount Rate'', Float direct)]"

definition precomputed_table :: frame where
  "precomputed_table =
     [precomputed_row ''A'' 100 0.03 0.04, precomputed_row ''B'' 105 0.05 0.06]"

text \<open>
  A rule that yields those of the listed days that lie in the range asked for.
\<close>

definition fixed_rule :: "string \<Rightarrow> int list \<Rightarrow> holiday_rule" where
  "fixed_rule name days =
     \<lparr>rule_name = name, rule_dates = (\<lambda>start end. filter (\<lambda>d. start \<le> d \<and> d \<le> end) days)\<rparr>"

text \<open>
  The rule table \<^verbatim>\<open>USFederalHolidayCalendar.rules\<close> of pandas since the Juneteenth
  rule was added at index 4, and its rule \<^verbatim>\<open>GoodFriday\<close>: each rule with the days it
  yields from 2025-01-01 (the day 739252) to 2031-11-06 (2500 days later), New Year's
  Day, Juneteenth, Independence Day, Veterans Day and Christmas Day moved to the nearest
  workday. The names are written without apostrophes. Labor Day 2025 is the day 739495,
  Columbus Day 2025 the day 739537, Veterans Day 2025 the day 739566.
\<close>

definition pandas_federal_rules :: "holiday_rule list" where
  "pandas_federal_rules =
     [fixed_rule ''New Years Day''
        [739252, 739617, 739982, 740346, 740713, 741078, 741443],
      fixed_rule ''Birthday of Martin Luther King, Jr.''
        [739271, 739635, 739999, 740363, 740727, 741098, 741462],
      fixed_rule ''Washingtons Birthday''
        [739299, 739663, 740027, 740398, 740762, 741126, 741490],
      fixed_rule ''Memorial Day''
        [739397, 739761, 740132, 740496, 740860, 741224, 741588],
      fixed_rule ''Juneteenth National Independence Day''
        [739421, 739786, 740150, 740517, 740882, 741247, 741612],
      fixed_rule ''Independence Day''
        [739436, 739800, 740167, 740532, 740897, 741262, 741627],
      fixed_rule ''Labor Day''
        [739495, 739866, 740230, 740594, 740958, 741322, 741686],
      fixed_rule ''Columbus Day''
        [739537, 739901, 740265, 740629, 740993, 741364, 741728],
      fixed_rule ''Veterans Day''
        [739566, 739931, 740296, 740661, 741028, 741392],
      fixed_rule ''Thanksgiving Day''
        [739582, 739946, 740310, 740674, 741038, 741409],
      fixed_rule ''Christmas Day''
        [739610, 739975, 740339, 740706, 741071, 741436]]"

definition pandas_good_friday :: holiday_rule where
  "pandas_good_friday =
     fixed_rule ''Good Friday''
        [739359, 739709, 740066, 740451, 740801, 741186, 741543]"

section \<open>Properties of spot resolution\<close>

lemma info_get_simps [simp]:
  "info_get None = Inl KeyError"
  "info_get (Some x) = Inr x"
  by (simp_all add: info_get_def)

text \<open>
  Claim C1, as the code has it, in the arithmetic of the code. The resolved spot is the
  current price when present. Otherwise, when bid, ask and previousClose are all present
  and previousClose is not zero, it is the mid \<^verbatim>\<open>(bid + ask) / 2\<close> as Python computes it,
  unless \<^verbatim>\<open>abs(mid - previousClose) / previousClose > 0.2\<close> as Python evaluates it, in
  which case it is previousClose. Otherwise, when bid, ask or (with bid and ask present)
  previousClose is absent, it is the net asset value when present, and previousClose
  when the net asset value is absent and previousClose is present. The result is a
  function of the snapshot.
\<close>

theorem extract_spot_fallback_order:
  "(currentPrice q = Some c \<longrightarrow> extract_spot ops q = Inr c) \<and>
   (currentPrice q = None \<and> bid q = Some b \<and> ask q = Some a \<and> previousClose q = Some pc
      \<and> \<not> py_is_zero ops pc \<longrightarrow>
      extract_spot ops q =
        Inr (if py_gt ops
                  (py_div ops
                     (py_abs ops (py_sub ops (py_div ops (py_add ops b a) (lit_2 ops)) pc)) pc)
                  (lit_0_2 ops)
             then pc else py_div ops (py_add ops b a) (lit_2 ops))) \<and>
   (currentPrice q = None \<and> (bid q = None \<or> ask q = None \<or> previousClose q = None)
      \<and> navPrice q = Some n \<longrightarrow> extract_spot ops q = Inr n) \<and>
   (currentPrice q = None \<and> (bid q = None \<or> ask q = None) \<and> navPrice q = None
      \<and> previousClose q = Some pc \<longrightarrow> extract_spot ops q = Inr pc)"
  by (cases "currentPrice q"; cases "bid q"; cases "ask q"; cases "previousClose q";
      cases "navPrice q"; simp add: extract_spot_def mid_or_close_def Let_def)

theorem extract_spot_fallback_order_witness:
  "extract_spot exact_arith \<lparr>currentPrice = Some 5, bid = None, ask = None,
      previousClose = None, navPrice = None\<rparr> = Inr 5 \<and>
   extract_spot exact_arith \<lparr>currentPrice = None, bid = Some 100, ask = Some 102,
      previousClose = Some 90, navPrice = None\<rparr> = Inr 101 \<and>
   extract_spot exact_arith \<lparr>currentPrice = None, bid = Some 100, ask = Some 200,
      previousClose = Some 90, navPrice = None\<rparr> = Inr 90 \<and>
   extract_spot exact_arith \<lparr>currentPrice = None, bid = Some 100, ask = None,
      previousClose = Some 90, navPrice = Some 95\<rparr> = Inr 95 \<and>
   extract_spot exact_arith \<lparr>currentPrice = None, bid = None, ask = Some 102,
      previousClose = Some 90, navPrice = None\<rparr> = Inr 90"
  using
    extract_spot_fallback_order [where ops = exact_arith and c = 5 and b = 0 and a = 0
      and pc = 0 and n = 0 and q = "\<lparr>currentPrice = Some 5, bid = None, ask = None,
      previousClose = None, navPrice = None\<rparr>"]
    extract_spot_fallback_order [where ops = exact_arith and c = 0 and b = 100 and a = 102
      and pc = 90 and n = 0 and q = "\<lparr>currentPrice = None, bid = Some 100, ask = Some 102,
      previousClose = Some 90, navPrice = None\<rparr>"]
    extract_spot_fallback_order [where ops = exact_arith and c = 0 and b = 100 and a = 200
      and pc = 90 and n = 0 and q = "\<lparr>currentPrice = None, bid = Some 100, ask = Some 200,
      previousClose = Some 90, navPrice = None\<rparr>"]
    extract_spot_fallback_order [where ops = exact_arith and c = 0 and b = 0 and a = 0
      and pc = 0 and n = 95 and q = "\<lparr>currentPrice = None, bid = Some 100, ask = None,
      previousClose = Some 90, navPrice = Some 95\<rparr>"]
    extract_spot_fallback_order [where ops = exact_arith and c = 0 and b = 0 and a = 0
      and pc = 90 and n = 0 and q = "\<lparr>currentPrice = None, bid = None, ask = Some 102,
      previousClose = Some 90, navPrice = None\<rparr>"]
  by (simp add: exact_arith_def)

text \<open>
  Claim C1 as stated fails: with bid 100 and ask 102 present, previousClose absent and
  a net asset value of 50, the claim gives the mid 101 (no previousClose can reject
  it), the code gives 50.
\<close>

theorem extract_spot_mid_counterexample:
  "spot_spec exact_arith \<lparr>currentPrice = None, bid = Some 100, ask = Some 102,
               previousClose = None, navPrice = Some 50\<rparr> = Some 101 \<and>
   extract_spot exact_arith \<lparr>currentPrice = None, bid = Some 100, ask = Some 102,
               previousClose = None, navPrice = Some 50\<rparr> = Inr 50"
  by (simp add: spot_spec_def extract_spot_def mid_or_close_def exact_arith_def)

section \<open>Properties of the API chain fetcher\<close>

lemma length_set_column [simp]: "length (set_column col v f) = length f"
  by (simp add: set_column_def)

lemma set_column_Nil [simp]: "(set_column col v f = []) = (f = [])"
  by (simp add: set_column_def)

lemma set_column_append [simp]:
  "set_column col v (f @ g) = set_column col v f @ set_column col v g"
  by (simp add: set_column_def)

lemma first_cell_set_column [simp]:
  "col \<noteq> col' \<Longrightarrow> first_cell col (set_column col' v f) = first_cell col f"
  by (cases f) (simp_all add: first_cell_def set_column_def update_conv')

lemma first_cell_KeyError: "first_cell col f = Inl e \<Longrightarrow> e = KeyError"
  by (auto simp: first_cell_def split: list.splits option.splits)

lemma entry_of_update [simp]:
  "entry_of (s\<lparr>option_dict := AList.update e fs d\<rparr>) e = fs"
  by (simp add: entry_of_def update_conv')

lemma entry_of_append_entry [simp]:
  "entry_of (append_entry e f s) e = entry_of s e @ [f]"
  by (simp add: append_entry_def entry_of_def update_conv')

lemma append_entry_fields [simp]:
  "full_data (append_entry e f s) = full_data s"
  "opt_except_list (append_entry e f s) = opt_except_list s"
  by (simp_all add: append_entry_def)

lemma append_stamped_fields [simp]:
  "full_data (append_stamped d f s) = full_data s @ set_column ''Expiry'' (Date d) f"
  "opt_except_list (append_stamped d f s) = opt_except_list s"
  "entry_of (append_stamped d f s) e = entry_of s e"
  by (simp_all add: append_stamped_def entry_of_def)

lemma api_expiry_effect:
  "\<exists>s'. api_expiry to_datetime expiry ch s = Inr s' \<and>
        full_data s' = full_data s @ api_fragment to_datetime expiry ch \<and>
        opt_except_list s' =
          opt_except_list s @ (if api_failed to_datetime expiry ch then [expiry] else [])"
  apply (cases "calls ch = []"; cases "puts ch = []";
         cases "first_cell ''strike'' (calls ch)"; cases "first_cell ''strike'' (puts ch)";
         cases "to_datetime expiry")
  apply (auto simp: api_expiry_def api_calls_def api_puts_with_calls_def api_puts_only_def
       api_fragment_def api_failed_def valid_side_def raising_side_def Let_def
       dest!: first_cell_KeyError)
  done

lemma api_loop_effect:
  "api_loop to_datetime oc es s = Inr s' \<Longrightarrow>
     full_data s' = full_data s @ concat (map (\<lambda>e. api_fragment to_datetime e (chain_of oc e)) es) \<and>
     opt_except_list s' =
       opt_except_list s @ filter (\<lambda>e. api_failed to_datetime e (chain_of oc e)) es"
proof (induction es arbitrary: s)
  case Nil
  then show ?case by simp
next
  case (Cons e es)
  from Cons.prems obtain ch where ch: "oc e = Inr ch"
    by (cases "oc e") auto
  from api_expiry_effect [of to_datetime e ch s] obtain s1 where
    s1: "api_expiry to_datetime e ch s = Inr s1"
        "full_data s1 = full_data s @ api_fragment to_datetime e ch"
        "opt_except_list s1 =
           opt_except_list s @ (if api_failed to_datetime e ch then [e] else [])"
    by blast
  from Cons.prems ch s1(1) have "api_loop to_datetime oc es s1 = Inr s'" by simp
  from Cons.IH [OF this] s1(2,3) ch show ?case
    by (simp add: chain_of_def)
qed


text \<open>
  The calls-only fallback of the API chain fetcher. For every expiry whose text parses as
  a date, whose call side is valid and whose put side is not, the expiry is not added to
  the failed-expiry list; the calls alone are stamped with the expiry date and appended
  to the table when the put side raises (it has rows, and the first row has no strike
  field), and nothing is appended when the put side has no rows or a first strike that is
  not a number.
\<close>

theorem api_calls_only_when_puts_raise:
  assumes "valid_side (calls ch)" and "\<not> valid_side (puts ch)"
    and "to_datetime expiry = Some d"
  shows "\<exists>s'. api_expiry to_datetime expiry ch s = Inr s' \<and>
           opt_except_list s' = opt_except_list s \<and>
           full_data s' = full_data s @
             (if raising_side (puts ch)
              then set_column ''Expiry'' (Date d)
                     (set_column ''Option Type'' (Str ''call'') (calls ch))
              else [])"
  using api_expiry_effect [of to_datetime expiry ch s] assms
  by (auto simp: api_fragment_def api_failed_def raising_side_def valid_side_def
      split: sum.splits)

theorem api_calls_only_when_puts_raise_witness:
  "valid_side five_rows \<and> \<not> valid_side row_without_strike \<and> raising_side row_without_strike \<and>
   (\<exists>s'. api_expiry example_to_datetime ''2025-03-21''
            \<lparr>calls = five_rows, puts = row_without_strike\<rparr> empty_state = Inr s' \<and>
          opt_except_list s' = [] \<and>
          full_data s' =
            set_column ''Expiry'' (Date 739331)
              (set_column ''Option Type'' (Str ''call'') five_rows))"
proof -
  have h1: "valid_side (calls \<lparr>calls = five_rows, puts = row_without_strike\<rparr>)"
    by (simp add: valid_side_def five_rows_def first_cell_def)
  have h2: "\<not> valid_side (puts \<lparr>calls = five_rows, puts = row_without_strike\<rparr>)"
    by (simp add: valid_side_def row_without_strike_def first_cell_def)
  have h3: "example_to_datetime ''2025-03-21'' = Some 739331"
    by (simp add: example_to_datetime_def)
  have h4: "raising_side row_without_strike"
    by (simp add: raising_side_def row_without_strike_def first_cell_def)
  from api_calls_only_when_puts_raise
         [where ch = "\<lparr>calls = five_rows, puts = row_without_strike\<rparr>"
            and to_datetime = example_to_datetime and expiry = "''2025-03-21''"
            and d = 739331 and s = empty_state]
       h1 h2 h3 h4
  show ?thesis by (simp add: empty_state_def)
qed

text \<open>
  Claim C2 at its failing input. The expiry 2025-03-21 has five valid calls and no puts.
  The guard \<^verbatim>\<open>if len(puts) > 0\<close> of line 225 raises nothing, so the handler of
  lines 238-244, which appends the calls alone, is not entered: the run ends with an
  empty table, the five calls lost, and an empty failed-expiry list.
\<close>

theorem api_five_calls_no_puts_failing_input:
  "run_table (get_option_data exact_arith example_to_datetime
      (one_expiry_provider quote_100 \<lparr>calls = five_rows, puts = []\<rparr>)) = Inr [] \<and>
   run_failed (get_option_data exact_arith example_to_datetime
      (one_expiry_provider quote_100 \<lparr>calls = five_rows, puts = []\<rparr>)) = Inr []"
  by (simp add: run_table_def run_failed_def get_option_data_def one_expiry_provider_def
      quote_100_def extract_spot_def empty_state_def api_expiry_def api_calls_def
      api_puts_with_calls_def five_rows_def first_cell_def set_column_def
      append_entry_def entry_of_def rename_columns_def)

text \<open>
  Claim C3 at its failing input. The call side raises (one row, no strike field) and the
  put side has three valid rows: line 256 assigns to index 1 of the empty list stored for
  the expiry, the IndexError is caught by the handler of line 264, and the run ends with
  no row in the table and the expiry in the failed-expiry list.
\<close>

theorem api_puts_only_failing_input:
  "run_table (get_option_data exact_arith example_to_datetime
      (one_expiry_provider quote_100 \<lparr>calls = row_without_strike, puts = three_rows\<rparr>)) = Inr [] \<and>
   run_failed (get_option_data exact_arith example_to_datetime
      (one_expiry_provider quote_100 \<lparr>calls = row_without_strike, puts = three_rows\<rparr>))
     = Inr [''2025-03-21'']"
  by (simp add: run_table_def run_failed_def get_option_data_def one_expiry_provider_def
      quote_100_def extract_spot_def empty_state_def api_expiry_def api_calls_def
      api_puts_only_def three_rows_def row_without_strike_def first_cell_def set_column_def
      append_entry_def entry_of_def rename_columns_def)







subsection \<open>The whole run of the API fetcher\<close>

lemma get_option_data_effect:
  assumes "get_option_data ops to_datetime p = Inr (spot, s)"
  shows "full_data s = rename_columns canonical_names
           (concat (map (\<lambda>e. api_fragment to_datetime e (chain_of (option_chain p) e))
              (options p)))"
    and "opt_except_list s =
           filter (\<lambda>e. api_failed to_datetime e (chain_of (option_chain p) e)) (options p)"
proof -
  from assms obtain s0 where
    s0: "api_loop to_datetime (option_chain p) (options p) empty_state = Inr s0"
    and s: "s = s0\<lparr>full_data := rename_columns canonical_names (full_data s0)\<rparr>"
    by (auto simp: get_option_data_def split: sum.splits)
  from api_loop_effect [OF s0] s
  show "full_data s = rename_columns canonical_names
           (concat (map (\<lambda>e. api_fragment to_datetime e (chain_of (option_chain p) e))
              (options p)))"
    and "opt_except_list s =
           filter (\<lambda>e. api_failed to_datetime e (chain_of (option_chain p) e)) (options p)"
    by (simp_all add: empty_state_def)
qed

lemma count_list_filter_distinct:
  "distinct xs \<Longrightarrow> x \<in> set xs \<Longrightarrow> count_list (filter P xs) x = (if P x then 1 else 0)"
  by (induction xs) (auto simp: count_list_0_iff)

lemma count_list_filter_le:
  "distinct xs \<Longrightarrow> count_list (filter P xs) x \<le> 1"
  by (induction xs) (auto simp: count_list_0_iff)

lemma map_of_update_row [simp]:
  "map_of (AList.update k v r) k = Some v"
  "k \<noteq> k' \<Longrightarrow> map_of (AList.update k v r) k' = map_of r k'"
  by (simp_all add: update_conv')

lemma api_fragment_rows:
  assumes "r \<in> set (api_fragment to_datetime e ch)"
  shows "\<exists>d. to_datetime e = Some d \<and> map_of r ''Expiry'' = Some (Date d) \<and>
           ((map_of r ''Option Type'' = Some (Str ''call'') \<and> valid_side (calls ch)) \<or>
            (map_of r ''Option Type'' = Some (Str ''put'') \<and> valid_side (puts ch)))"
proof (cases "to_datetime e")
  case None
  with assms show ?thesis by (simp add: api_fragment_def)
next
  case (Some d)
  with assms show ?thesis
    by (auto simp: api_fragment_def set_column_def Let_def split: if_splits)
qed

lemma map_of_renamed:
  assumes "\<And>k. (g k = k0) = (k = k0)"
  shows "map_of (map (\<lambda>(k, v). (g k, v)) r) k0 = map_of r k0"
proof (induction r)
  case Nil
  show ?case by simp
next
  case (Cons a r)
  obtain k v where a: "a = (k, v)" by (cases a)
  have "(k0 = g k) = (g k = k0)" and "(k0 = k) = (k = k0)" by (rule eq_commute)+
  with assms [of k] have "(k0 = g k) = (k0 = k)" by (simp only:)
  with Cons a show ?case by simp
qed

lemma canonical_name_option_type:
  "((case map_of canonical_names k of None \<Rightarrow> k | Some k' \<Rightarrow> k') = ''Option Type'')
     = (k = ''Option Type'')"
  by (simp add: canonical_names_def)

lemma canonical_name_expiry:
  "((case map_of canonical_names k of None \<Rightarrow> k | Some k' \<Rightarrow> k') = ''Expiry'') = (k = ''Expiry'')"
  by (simp add: canonical_names_def)

lemma renamed_row_fields:
  "map_of (map (\<lambda>(k, v). (case map_of canonical_names k of None \<Rightarrow> k | Some k' \<Rightarrow> k', v)) r)
     ''Option Type'' = map_of r ''Option Type''"
  "map_of (map (\<lambda>(k, v). (case map_of canonical_names k of None \<Rightarrow> k | Some k' \<Rightarrow> k', v)) r)
     ''Expiry'' = map_of r ''Expiry''"
  by (rule map_of_renamed, rule canonical_name_option_type)
     (rule map_of_renamed, rule canonical_name_expiry)

lemma api_table_rows:
  assumes "get_option_data ops to_datetime p = Inr (spot, s)" and "r \<in> set (full_data s)"
  shows "\<exists>e \<in> set (options p). \<exists>d. to_datetime e = Some d \<and>
           map_of r ''Expiry'' = Some (Date d) \<and>
           ((map_of r ''Option Type'' = Some (Str ''call'') \<and>
               valid_side (calls (chain_of (option_chain p) e))) \<or>
            (map_of r ''Option Type'' = Some (Str ''put'') \<and>
               valid_side (puts (chain_of (option_chain p) e))))"
proof -
  from get_option_data_effect(1) [OF assms(1)] assms(2) obtain e r0 where
    e: "e \<in> set (options p)"
    and r0: "r0 \<in> set (api_fragment to_datetime e (chain_of (option_chain p) e))"
    and r: "r = map (\<lambda>(k, v). (case map_of canonical_names k of None \<Rightarrow> k | Some k' \<Rightarrow> k', v)) r0"
    by (auto simp: rename_columns_def)
  from api_fragment_rows [OF r0] e r show ?thesis
    by (auto simp: renamed_row_fields)
qed

section \<open>Properties of the legacy scrape fetcher\<close>

lemma digit_side_set_column [simp]:
  "col \<noteq> ''Strike'' \<Longrightarrow> digit_side (set_column col v f) = digit_side f"
  by (simp add: digit_side_def)

lemma legacy_date_effect:
  assumes "legacy_date to_datetime e s = Inr s'"
  shows "option_dict s' = option_dict s \<and>
         full_data s' = full_data s @
           (case to_datetime e of
              None \<Rightarrow> []
            | Some d \<Rightarrow> legacy_fragment d (tables_of (option_dict s) e)) \<and>
         opt_except_list s' =
           opt_except_list s @ (if tables_of (option_dict s) e = [] then [e] else [])"
proof (cases "map_of (option_dict s) e")
  case None
  with assms show ?thesis
    by (simp add: legacy_date_def legacy_calls_def dict_get_def)
next
  case (Some fs)
  show ?thesis
  proof (cases fs)
    case Nil
    with Some assms show ?thesis
      by (auto simp: legacy_date_def legacy_calls_def legacy_puts_only_def dict_get_def
          list_get_def tables_of_def legacy_fragment_def split: option.splits)
  next
    case (Cons c rest)
    note fs = Cons
    show ?thesis
    proof (cases "first_cell ''Strike'' c")
      case (Inl x)
      then have "x = KeyError" by (rule first_cell_KeyError)
      with Inl Some fs assms show ?thesis
        by (simp add: legacy_date_def legacy_calls_def dict_get_def list_get_def Let_def)
    next
      case (Inr cc)
      note c = Inr
      show ?thesis
      proof (cases rest)
        case Nil
        with Some fs c assms show ?thesis
          by (cases "to_datetime e")
             (auto simp: legacy_date_def legacy_calls_def legacy_puts_with_calls_def
               dict_get_def list_get_def tables_of_def legacy_fragment_def digit_side_def
               Let_def split: if_splits)
      next
        case (Cons p rest')
        show ?thesis
        proof (cases "first_cell ''Strike'' p")
          case (Inl x)
          then have "x = KeyError" by (rule first_cell_KeyError)
          with Inl Cons Some fs c assms show ?thesis
            by (cases "to_datetime e")
               (auto simp: legacy_date_def legacy_calls_def legacy_puts_with_calls_def
                 dict_get_def list_get_def tables_of_def legacy_fragment_def digit_side_def
                 Let_def split: if_splits)
        next
          case (Inr pc)
          with Cons Some fs c assms show ?thesis
            by (cases "to_datetime e")
               (auto simp: legacy_date_def legacy_calls_def legacy_puts_with_calls_def
                 dict_get_def list_get_def tables_of_def legacy_fragment_def digit_side_def
                 Let_def split: if_splits)
        qed
      qed
    qed
  qed
qed

lemma legacy_loop_effect:
  "legacy_loop to_datetime es s = Inr s' \<Longrightarrow>
     option_dict s' = option_dict s \<and>
     full_data s' = full_data s @
       concat (map (\<lambda>e. case to_datetime e of
                            None \<Rightarrow> []
                          | Some d \<Rightarrow> legacy_fragment d (tables_of (option_dict s) e)) es) \<and>
     opt_except_list s' =
       opt_except_list s @ filter (\<lambda>e. tables_of (option_dict s) e = []) es"
proof (induction es arbitrary: s)
  case Nil
  then show ?case by simp
next
  case (Cons e es)
  from Cons.prems obtain s1 where
    s1: "legacy_date to_datetime e s = Inr s1" and
    rest: "legacy_loop to_datetime es s1 = Inr s'"
    by (auto split: sum.splits)
  from legacy_date_effect [OF s1] have od: "option_dict s1 = option_dict s"
    by simp
  from legacy_date_effect [OF s1] Cons.IH [OF rest, unfolded od] show ?case
    by simp
qed

lemma legacy_fragment_rows:
  assumes "r \<in> set (legacy_fragment d fs)"
  shows "map_of r ''Expiry'' = Some (Date d) \<and>
         ((map_of r ''Option Type'' = Some (Str ''call'') \<and> legacy_call_side_valid fs) \<or>
          (map_of r ''Option Type'' = Some (Str ''put'') \<and> legacy_put_side_valid fs))"
proof (cases fs)
  case Nil
  with assms show ?thesis by (simp add: legacy_fragment_def)
next
  case (Cons c rest)
  with assms show ?thesis
    by (cases rest)
       (auto simp: legacy_fragment_def legacy_call_side_valid_def legacy_put_side_valid_def
          set_column_def split: if_splits)
qed

lemma process_options_effect:
  assumes "process_options to_datetime dates od table = Inr s"
  shows "full_data s = table @
           concat (map (\<lambda>x. case to_datetime x of
                                None \<Rightarrow> []
                              | Some dx \<Rightarrow> legacy_fragment dx (tables_of od x)) dates)"
    and "opt_except_list s = filter (\<lambda>x. tables_of od x = []) dates"
proof -
  from assms have "legacy_loop to_datetime dates
       \<lparr>option_dict = od, opt_except_list = [], full_data = table\<rparr> = Inr s"
    by (simp add: process_options_def)
  from legacy_loop_effect [OF this]
  show "full_data s = table @
           concat (map (\<lambda>x. case to_datetime x of
                                None \<Rightarrow> []
                              | Some dx \<Rightarrow> legacy_fragment dx (tables_of od x)) dates)"
    and "opt_except_list s = filter (\<lambda>x. tables_of od x = []) dates"
    by (simp_all cong: option.case_cong)
qed

section \<open>Expiries whose two sides fail\<close>

text \<open>
  Claim C4 at its failing inputs. In the API fetcher, an expiry whose calls and puts are
  both empty row sets: the guard \<^verbatim>\<open>if len(calls) > 0\<close> of line 216 raises nothing,
  the handlers of lines 246 and 264 are not entered, and the run ends with the expiry
  absent from the failed-expiry list. In the legacy fetcher, a date whose page has one
  table with the strike \<^verbatim>\<open>-\<close> in its first row and no second table: the check of
  line 469 fails without raising, the puts are never looked for, and the date is absent
  from the failed-expiry list. Both contribute no row.
\<close>

theorem both_sides_fail_failing_input:
  "run_failed (get_option_data exact_arith example_to_datetime
      (one_expiry_provider quote_100 \<lparr>calls = [], puts = []\<rparr>)) = Inr [] \<and>
   run_table (get_option_data exact_arith example_to_datetime
      (one_expiry_provider quote_100 \<lparr>calls = [], puts = []\<rparr>)) = Inr [] \<and>
   scrape_failed (extractoptions text_fault_transport dash_table_html example_to_datetime 1
      [(''2025-04-18'', ''url_b'')]) = Inr [] \<and>
   scrape_table (extractoptions text_fault_transport dash_table_html example_to_datetime 1
      [(''2025-04-18'', ''url_b'')]) = Inr []"
  by (simp add: run_table_def run_failed_def get_option_data_def one_expiry_provider_def
      quote_100_def extract_spot_def empty_state_def api_expiry_def api_calls_def
      set_column_def rename_columns_def scrape_failed_def scrape_table_def
      extractoptions_def text_fault_transport_def dash_table_html_def sleep_def
      dict_get_def list_get_def process_options_def legacy_date_def legacy_calls_def
      first_cell_def isdigit_def)

section \<open>The rows of the canonical table\<close>

lemma legacy_table_rows:
  assumes "process_options to_datetime dates od [] = Inr s" and "r \<in> set (full_data s)"
  shows "\<exists>e \<in> set dates. \<exists>d. to_datetime e = Some d \<and>
           map_of r ''Expiry'' = Some (Date d) \<and>
           ((map_of r ''Option Type'' = Some (Str ''call'') \<and>
               legacy_call_side_valid (tables_of od e)) \<or>
            (map_of r ''Option Type'' = Some (Str ''put'') \<and>
               legacy_put_side_valid (tables_of od e)))"
proof -
  from process_options_effect(1) [OF assms(1)] assms(2) obtain e where
    e: "e \<in> set dates" and
    r: "r \<in> set (case to_datetime e of
                    None \<Rightarrow> []
                  | Some dx \<Rightarrow> legacy_fragment dx (tables_of od e))"
    by auto
  from r obtain d where d: "to_datetime e = Some d"
    and rd: "r \<in> set (legacy_fragment d (tables_of od e))"
    by (cases "to_datetime e") auto
  from legacy_fragment_rows [OF rd] e d show ?thesis by blast
qed

text \<open>
  Claim C7, as the code has it. Every row of the table produced by the API fetcher, and
  every row of the table produced by the legacy fetcher from an empty table, has an
  Option Type that is exactly \<^verbatim>\<open>call\<close> or \<^verbatim>\<open>put\<close> and an Expiry that is the
  calendar date parsed from one of the run's expiry texts. The strike is checked on the
  first row of a side only: a call row comes from a call side that passed the
  fetcher's check (a first strike that is a number in the API fetcher, whose text is made
  of digits in the legacy fetcher), a put row from a put side that passed it. Nothing is
  said of the strike of a later row.
\<close>

theorem table_rows_tagged_and_stamped:
  "(get_option_data ops to_datetime p = Inr (spot, s) \<and> r \<in> set (full_data s) \<longrightarrow>
      (\<exists>e \<in> set (options p). \<exists>d. to_datetime e = Some d \<and>
           map_of r ''Expiry'' = Some (Date d) \<and>
           ((map_of r ''Option Type'' = Some (Str ''call'') \<and>
               valid_side (calls (chain_of (option_chain p) e))) \<or>
            (map_of r ''Option Type'' = Some (Str ''put'') \<and>
               valid_side (puts (chain_of (option_chain p) e)))))) \<and>
   (process_options to_datetime dates od [] = Inr sl \<and> rl \<in> set (full_data sl) \<longrightarrow>
      (\<exists>e \<in> set dates. \<exists>d. to_datetime e = Some d \<and>
           map_of rl ''Expiry'' = Some (Date d) \<and>
           ((map_of rl ''Option Type'' = Some (Str ''call'') \<and>
               legacy_call_side_valid (tables_of od e)) \<or>
            (map_of rl ''Option Type'' = Some (Str ''put'') \<and>
               legacy_put_side_valid (tables_of od e)))))"
  using api_table_rows [of ops to_datetime p spot s r]
        legacy_table_rows [of to_datetime dates od sl rl]
  by blast

theorem table_rows_tagged_and_stamped_witness:
  "get_option_data exact_arith example_to_datetime
     (one_expiry_provider quote_100 \<lparr>calls = one_row, puts = one_row\<rparr>) =
     Inr (100, \<lparr>option_dict =
                   [(''2025-03-21'',
                     [[[(''strike'', Float 90), (''Option Type'', Str ''call'')]],
                      [[(''strike'', Float 90), (''Option Type'', Str ''put'')]]])],
                opt_except_list = [],
                full_data =
                   [[(''Strike'', Float 90), (''Option Type'', Str ''call''),
                     (''Expiry'', Date 739331)],
                    [(''Strike'', Float 90), (''Option Type'', Str ''put''),
                     (''Expiry'', Date 739331)]]\<rparr>) \<and>
   (\<exists>sl. process_options example_to_datetime [''2025-04-18''] one_table_date [] = Inr sl \<and>
      opt_except_list sl = [] \<and>
      full_data sl = [[(''Strike'', Str ''100''), (''Option Type'', Str ''call''),
                       (''Expiry'', Date 739359)]]) \<and>
   (\<exists>e \<in> set [''2025-03-21'']. \<exists>d. example_to_datetime e = Some d \<and>
      map_of [(''Strike'', Float 90), (''Option Type'', Str ''put''),
              (''Expiry'', Date 739331)] ''Expiry'' = Some (Date d)) \<and>
   (\<exists>e \<in> set [''2025-04-18'']. \<exists>d. example_to_datetime e = Some d \<and>
      map_of [(''Strike'', Str ''100''), (''Option Type'', Str ''call''),
              (''Expiry'', Date 739359)] ''Expiry'' = Some (Date d))"
proof -
  let ?p = "one_expiry_provider quote_100 \<lparr>calls = one_row, puts = one_row\<rparr>"
  let ?s = "\<lparr>option_dict =
                   [(''2025-03-21'',
                     [[[(''strike'', Float 90), (''Option Type'', Str ''call'')]],
                      [[(''strike'', Float 90), (''Option Type'', Str ''put'')]]])],
                opt_except_list = [],
                full_data =
                   [[(''Strike'', Float 90), (''Option Type'', Str ''call''),
                     (''Expiry'', Date 739331)],
                    [(''Strike'', Float 90), (''Option Type'', Str ''put''),
                     (''Expiry'', Date 739331)]]\<rparr>"
  let ?sl = "\<lparr>option_dict = one_table_date, opt_except_list = [],
          full_data = [[(''Strike'', Str ''100''), (''Option Type'', Str ''call''),
                        (''Expiry'', Date 739359)]]\<rparr>"
  have run: "get_option_data exact_arith example_to_datetime ?p = Inr (100, ?s)"
    by (simp add: get_option_data_def one_expiry_provider_def quote_100_def extract_spot_def
        empty_state_def api_expiry_def api_calls_def api_puts_with_calls_def one_row_def
        first_cell_def set_column_def rename_columns_def canonical_names_def
        append_entry_def append_stamped_def entry_of_def example_to_datetime_def)
  have leg: "process_options example_to_datetime [''2025-04-18''] one_table_date [] = Inr ?sl"
    by (simp add: process_options_def legacy_date_def legacy_calls_def
        legacy_puts_with_calls_def dict_get_def list_get_def one_table_date_def
        first_cell_def set_column_def isdigit_def example_to_datetime_def)
  from table_rows_tagged_and_stamped
         [where p = ?p and to_datetime = example_to_datetime and spot = 100 and s = ?s
            and r = "[(''Strike'', Float 90), (''Option Type'', Str ''put''),
                      (''Expiry'', Date 739331)]"
            and dates = "[''2025-04-18'']" and od = one_table_date and sl = ?sl
            and rl = "[(''Strike'', Str ''100''), (''Option Type'', Str ''call''),
                       (''Expiry'', Date 739359)]"]
       run leg
  show ?thesis
    by (simp add: one_expiry_provider_def)
qed

text \<open>
  Claim C7 as stated fails: a call side whose first strike is the number 100 and whose
  second strike is the text \<^verbatim>\<open>-\<close> passes the check, and the second row reaches the
  table with a strike that is not numeric.
\<close>

theorem later_strike_not_numeric_counterexample:
  "run_table (get_option_data exact_arith example_to_datetime
      (one_expiry_provider quote_100 \<lparr>calls = mixed_rows, puts = one_row\<rparr>)) =
     Inr [[(''Strike'', Float 100), (''Option Type'', Str ''call''), (''Expiry'', Date 739331)],
          [(''Strike'', Str ''-''), (''Option Type'', Str ''call''), (''Expiry'', Date 739331)],
          [(''Strike'', Float 90), (''Option Type'', Str ''put''), (''Expiry'', Date 739331)]]"
  by (simp add: run_table_def get_option_data_def one_expiry_provider_def quote_100_def
      extract_spot_def empty_state_def api_expiry_def api_calls_def api_puts_with_calls_def
      one_row_def mixed_rows_def first_cell_def set_column_def rename_columns_def
      canonical_names_def append_entry_def append_stamped_def entry_of_def
      example_to_datetime_def)

section \<open>Fetch faults in the legacy path\<close>

text \<open>
  Claim C5 at its failing inputs. Two URLs are discovered. When reading the text of the
  first response raises ValueError, the fetch loop sleeps 5 seconds, opens the second URL
  once and stores its page; but nothing is written to the URL-exception mapping, and
  \<^verbatim>\<open>_read_web_data\<close> then raises KeyError on the date that has no page (its handler
  names ValueError only), so the run ends before any page is parsed. When
  \<^verbatim>\<open>open\<close> itself raises on the first URL, the call standing before the
  \<^verbatim>\<open>try\<close>, the loop ends there and the second URL is never opened.
\<close>

theorem fetch_fault_failing_input:
  "extract_web_data text_fault_transport 1 two_urls no_web_data =
     (\<lparr>raw_web_data = [(''2025-04-18'', ''page'')], opened = [''url_a'', ''url_b''],
       slept = [5, 1]\<rparr>, None) \<and>
   read_web_data one_table_html [(''2025-04-18'', ''page'')] two_urls ([], []) = Inl KeyError \<and>
   extractoptions text_fault_transport one_table_html example_to_datetime 1 two_urls
     = Inl KeyError \<and>
   extract_web_data open_fault_transport 1 two_urls no_web_data =
     (\<lparr>raw_web_data = [], opened = [''url_a''], slept = []\<rparr>, Some OSError)"
  by (simp add: two_urls_def text_fault_transport_def open_fault_transport_def
      one_table_html_def no_web_data_def sleep_def dict_get_def extractoptions_def)

section \<open>URL discovery\<close>

lemma update_fresh: "k \<notin> fst ` set al \<Longrightarrow> AList.update k v al = al @ [(k, v)]"
  by (induction al) auto

lemma foldl_update_distinct:
  "distinct (map fst ps) \<Longrightarrow> fst ` set ps \<inter> fst ` set acc = {} \<Longrightarrow>
     foldl (\<lambda>d (k, v). AList.update k v d) acc ps = acc @ ps"
proof (induction ps arbitrary: acc)
  case Nil
  then show ?case by simp
next
  case (Cons a ps)
  obtain k v where a: "a = (k, v)" by (cases a)
  from Cons.prems a have fresh: "k \<notin> fst ` set acc" by auto
  from Cons.prems a have "distinct (map fst ps)"
    and "fst ` set ps \<inter> fst ` set (acc @ [(k, v)]) = {}"
    by auto
  from Cons.IH [OF this] a fresh show ?case
    by (simp add: update_fresh)
qed

lemma py_dict_distinct: "distinct (map fst ps) \<Longrightarrow> py_dict ps = ps"
  using foldl_update_distinct [of ps "[]"] by (simp add: py_dict_def)








lemma those_map_Some: "those (map Some xs) = Some xs"
  by (induction xs) auto











section \<open>The precomputed-data path\<close>

lemma those_all_Some:
  "\<forall>x \<in> set xs. g x \<noteq> None \<Longrightarrow> those (map g xs) = Some (map (\<lambda>x. the (g x)) xs)"
  by (induction xs) auto

lemma get_column_present:
  "\<forall>r \<in> set f. map_of r col \<noteq> None \<Longrightarrow>
     get_column col f = Inr (map (\<lambda>r. the (map_of r col)) f)"
  by (simp add: get_column_def those_all_Some)

lemma assign_column_rows:
  "assign_column col (map g f) f = map (\<lambda>r. AList.update col (g r) r) f"
  by (induction f) (simp_all add: assign_column_def)

lemma map_of_selected:
  "k \<in> set cols \<Longrightarrow> map_of (map (\<lambda>col. (col, g col)) cols) k = Some (g k)"
  by (induction cols) auto

lemma select_row_present:
  "\<forall>col \<in> set cols. map_of r col \<noteq> None \<Longrightarrow>
     select_row cols r = Some (map (\<lambda>col. (col, the (map_of r col))) cols)"
proof -
  assume a: "\<forall>col \<in> set cols. map_of r col \<noteq> None"
  then have "\<forall>col \<in> set cols. map_option (Pair col) (map_of r col) \<noteq> None"
    by simp
  from those_all_Some [of cols "\<lambda>col. map_option (Pair col) (map_of r col)", OF this]
  have "select_row cols r =
      Some (map (\<lambda>col. the (map_option (Pair col) (map_of r col))) cols)"
    by (simp add: select_row_def)
  moreover from a have "map (\<lambda>col. the (map_option (Pair col) (map_of r col))) cols =
      map (\<lambda>col. (col, the (map_of r col))) cols"
    by (intro map_cong refl) (auto simp: option.map_sel)
  ultimately show ?thesis by simp
qed

lemma select_columns_present:
  assumes "\<forall>r \<in> set f. \<forall>col \<in> set cols. map_of r col \<noteq> None"
  shows "select_columns cols f =
           Inr (map (\<lambda>r. map (\<lambda>col. (col, the (map_of r col))) cols) f)"
proof -
  from assms have a: "\<forall>r \<in> set f. select_row cols r \<noteq> None"
    by (simp add: select_row_present)
  from assms have "map (\<lambda>r. the (select_row cols r)) f =
      map (\<lambda>r. map (\<lambda>col. (col, the (map_of r col))) cols) f"
    by (intro map_cong refl) (simp add: select_row_present)
  with those_all_Some [of f "select_row cols", OF a] show ?thesis
    by (simp add: select_columns_def)
qed

lemma select_discount_rate_column:
  "select_discount_rate discount_type df =
     (case get_column (discount_column discount_type) df of
        Inl e \<Rightarrow> Inl e
      | Inr cs \<Rightarrow> Inr (assign_column ''Discount Rate'' cs df))"
  by (simp add: select_discount_rate_def discount_column_def)

lemma precomputed_path_result:
  assumes cols: "has_columns (input_columns discount_type) df" and ne: "df \<noteq> []"
  shows "volatility_init ops to_datetime p discount_type (Some df) =
      Precomputed_path (Inr (the (map_of (hd df) ''Spot Price''),
        map (\<lambda>r. map (\<lambda>col. (col, the (map_of r col))) canonical_columns)
          (map (\<lambda>r. AList.update ''Discount Rate''
                       (the (map_of r (discount_column discount_type))) r) df)))"
proof -
  let ?dc = "discount_column discount_type"
  let ?df' = "map (\<lambda>r. AList.update ''Discount Rate'' (the (map_of r ?dc)) r) df"
  from cols have dc: "\<forall>r \<in> set df. map_of r ?dc \<noteq> None"
    by (simp add: has_columns_def input_columns_def)
  from cols have sp: "\<forall>r \<in> set df. map_of r ''Spot Price'' \<noteq> None"
    by (simp add: has_columns_def input_columns_def)
  from cols have cc: "\<forall>r \<in> set df. \<forall>col \<in> set canonical_columns.
      col \<noteq> ''Discount Rate'' \<longrightarrow> map_of r col \<noteq> None"
    by (simp add: has_columns_def input_columns_def)
  have sel: "select_discount_rate discount_type df = Inr ?df'"
    by (simp add: select_discount_rate_column get_column_present [OF dc] assign_column_rows)
  from sp have sp': "\<forall>r \<in> set ?df'. map_of r ''Spot Price'' \<noteq> None"
    by simp
  have spots: "get_column ''Spot Price'' ?df' =
      Inr (map (\<lambda>r. the (map_of r ''Spot Price'')) ?df')"
    by (rule get_column_present [OF sp'])
  from ne have first: "list_get (map (\<lambda>r. the (map_of r ''Spot Price'')) ?df') 0 =
      Inr (the (map_of (hd df) ''Spot Price''))"
    by (cases df) (simp_all add: list_get_def)
  from cc have cc': "\<forall>r \<in> set ?df'. \<forall>col \<in> set canonical_columns. map_of r col \<noteq> None"
    by (auto simp: update_conv')
  have "process_df_option_data ?df' =
      Inr (the (map_of (hd df) ''Spot Price''),
           map (\<lambda>r. map (\<lambda>col. (col, the (map_of r col))) canonical_columns) ?df')"
    by (simp only: process_df_option_data_def spots first
          select_columns_present [OF cc'] sum.case)
  with sel show ?thesis
    by (simp add: volatility_init_def)
qed

text \<open>
  Claim C8. When precomputed data is supplied, with the columns the path reads and at
  least one row, the adapter sets the Discount Rate of every row to that row's Smooth
  Discount Rate when the discount-type flag is \<^verbatim>\<open>smooth\<close> and to its Direct Discount
  Rate otherwise, keeps the canonical columns, and sets the resolved spot to the Spot
  Price of the first row. The result does not depend on the provider, which is never
  called, and the path is taken exactly when precomputed data is present; without it the
  fetch path runs.
\<close>

theorem precomputed_path_adapter:
  "(has_columns (input_columns discount_type) df \<and> df \<noteq> [] \<longrightarrow>
      (\<exists>spot t. volatility_init ops to_datetime p discount_type (Some df)
                   = Precomputed_path (Inr (spot, t)) \<and>
          map_of (hd df) ''Spot Price'' = Some spot \<and> length t = length df \<and>
          (\<forall>i < length df.
             map_of (t ! i) ''Discount Rate'' = map_of (df ! i) (discount_column discount_type) \<and>
             map fst (t ! i) = canonical_columns))) \<and>
   volatility_init ops to_datetime p discount_type (Some df)
     = volatility_init other_ops other_to_datetime other_p discount_type (Some df) \<and>
   ((\<exists>res. volatility_init ops to_datetime p discount_type pre = Precomputed_path res)
      = (pre \<noteq> None)) \<and>
   volatility_init ops to_datetime p discount_type None = Fetch_path (get_option_data ops to_datetime p)"
proof (intro conjI impI)
  assume a: "has_columns (input_columns discount_type) df \<and> df \<noteq> []"
  let ?dc = "discount_column discount_type"
  let ?df' = "map (\<lambda>r. AList.update ''Discount Rate'' (the (map_of r ?dc)) r) df"
  let ?t = "map (\<lambda>r. map (\<lambda>col. (col, the (map_of r col))) canonical_columns) ?df'"
  let ?spot = "the (map_of (hd df) ''Spot Price'')"
  from a have res: "volatility_init ops to_datetime p discount_type (Some df) =
      Precomputed_path (Inr (?spot, ?t))"
    by (simp add: precomputed_path_result)
  from a have "hd df \<in> set df" by simp
  with a have spot: "map_of (hd df) ''Spot Price'' = Some ?spot"
    by (auto simp: has_columns_def input_columns_def)
  have rows: "map_of (?t ! i) ''Discount Rate'' = map_of (df ! i) ?dc \<and>
              map fst (?t ! i) = canonical_columns" if i: "i < length df" for i
  proof -
    from i have "df ! i \<in> set df" by simp
    with a have present: "map_of (df ! i) ?dc \<noteq> None"
      by (auto simp: has_columns_def input_columns_def)
    have dr: "''Discount Rate'' \<in> set canonical_columns"
      by (simp add: canonical_columns_def)
    from i have "map_of (?t ! i) ''Discount Rate'' = Some (the (map_of (df ! i) ?dc))"
      by (simp add: map_of_selected [OF dr])
    with present have "map_of (?t ! i) ''Discount Rate'' = map_of (df ! i) ?dc"
      by auto
    moreover from i have "map fst (?t ! i) = canonical_columns"
      by (simp add: comp_def)
    ultimately show ?thesis by simp
  qed
  from res spot rows show "\<exists>spot t. volatility_init ops to_datetime p discount_type (Some df)
                   = Precomputed_path (Inr (spot, t)) \<and>
          map_of (hd df) ''Spot Price'' = Some spot \<and> length t = length df \<and>
          (\<forall>i < length df.
             map_of (t ! i) ''Discount Rate'' = map_of (df ! i) (discount_column discount_type) \<and>
             map fst (t ! i) = canonical_columns)"
    by (intro exI [of _ ?spot] exI [of _ ?t]) simp
next
  show "volatility_init ops to_datetime p discount_type (Some df)
     = volatility_init other_ops other_to_datetime other_p discount_type (Some df)"
    by (simp add: volatility_init_def)
next
  show "(\<exists>res. volatility_init ops to_datetime p discount_type pre = Precomputed_path res)
      = (pre \<noteq> None)"
    by (cases pre) (simp_all add: volatility_init_def)
next
  show "volatility_init ops to_datetime p discount_type None
      = Fetch_path (get_option_data ops to_datetime p)"
    by (simp add: volatility_init_def)
qed

theorem precomputed_path_adapter_witness:
  "has_columns (input_columns ''smooth'') precomputed_table \<and> precomputed_table \<noteq> [] \<and>
   (\<exists>spot t. volatility_init exact_arith example_to_datetime
                (one_expiry_provider quote_100 \<lparr>calls = five_rows, puts = three_rows\<rparr>)
                ''smooth'' (Some precomputed_table) = Precomputed_path (Inr (spot, t)) \<and>
      spot = Float 100 \<and> length t = 2 \<and>
      map_of (t ! 0) ''Discount Rate'' = Some (Float 0.03) \<and>
      map_of (t ! 1) ''Discount Rate'' = Some (Float 0.05)) \<and>
   (\<exists>spot t. volatility_init exact_arith example_to_datetime
                (one_expiry_provider quote_100 \<lparr>calls = five_rows, puts = three_rows\<rparr>)
                ''direct'' (Some precomputed_table) = Precomputed_path (Inr (spot, t)) \<and>
      map_of (t ! 0) ''Discount Rate'' = Some (Float 0.04) \<and>
      map_of (t ! 1) ''Discount Rate'' = Some (Float 0.06))"
proof -
  let ?p = "one_expiry_provider quote_100 \<lparr>calls = five_rows, puts = three_rows\<rparr>"
  have hs: "has_columns (input_columns ''smooth'') precomputed_table"
    by (simp add: has_columns_def input_columns_def discount_column_def canonical_columns_def
        precomputed_table_def precomputed_row_def)
  have hd: "has_columns (input_columns ''direct'') precomputed_table"
    by (simp add: has_columns_def input_columns_def discount_column_def canonical_columns_def
        precomputed_table_def precomputed_row_def)
  have ne: "precomputed_table \<noteq> []"
    by (simp add: precomputed_table_def)
  have len: "length precomputed_table = 2"
    by (simp add: precomputed_table_def)
  have cells:
    "map_of (hd precomputed_table) ''Spot Price'' = Some (Float 100)"
    "map_of (precomputed_table ! 0) (discount_column ''smooth'') = Some (Float 0.03)"
    "map_of (precomputed_table ! 1) (discount_column ''smooth'') = Some (Float 0.05)"
    "map_of (precomputed_table ! 0) (discount_column ''direct'') = Some (Float 0.04)"
    "map_of (precomputed_table ! 1) (discount_column ''direct'') = Some (Float 0.06)"
    "map_of (precomputed_table ! Suc 0) (discount_column ''smooth'') = Some (Float 0.05)"
    "map_of (precomputed_table ! Suc 0) (discount_column ''direct'') = Some (Float 0.06)"
    by (simp_all add: precomputed_table_def precomputed_row_def discount_column_def)
  note smooth = precomputed_path_adapter
         [where discount_type = "''smooth''" and df = precomputed_table
            and ops = exact_arith and to_datetime = example_to_datetime and p = ?p
            and other_ops = exact_arith and other_to_datetime = example_to_datetime
            and other_p = ?p and pre = None,
          THEN conjunct1, THEN mp, OF conjI [OF hs ne]]
  note direct = precomputed_path_adapter
         [where discount_type = "''direct''" and df = precomputed_table
            and ops = exact_arith and to_datetime = example_to_datetime and p = ?p
            and other_ops = exact_arith and other_to_datetime = example_to_datetime
            and other_p = ?p and pre = None,
          THEN conjunct1, THEN mp, OF conjI [OF hd ne]]
  from smooth obtain spot t where
    s: "volatility_init exact_arith example_to_datetime ?p ''smooth'' (Some precomputed_table)
          = Precomputed_path (Inr (spot, t))"
       "map_of (hd precomputed_table) ''Spot Price'' = Some spot"
       "length t = length precomputed_table"
    and sr: "\<forall>i < length precomputed_table.
          map_of (t ! i) ''Discount Rate''
            = map_of (precomputed_table ! i) (discount_column ''smooth'') \<and>
          map fst (t ! i) = canonical_columns"
    by (elim exE conjE) (rule that)
  from direct obtain spot' t' where
    d: "volatility_init exact_arith example_to_datetime ?p ''direct'' (Some precomputed_table)
          = Precomputed_path (Inr (spot', t'))"
    and dr: "\<forall>i < length precomputed_table.
          map_of (t' ! i) ''Discount Rate''
            = map_of (precomputed_table ! i) (discount_column ''direct'') \<and>
          map fst (t' ! i) = canonical_columns"
    by (elim exE conjE) (rule that)
  from sr [rule_format, of 0] sr [rule_format, of 1] dr [rule_format, of 0]
       dr [rule_format, of 1]
  have rates:
    "map_of (t ! 0) ''Discount Rate'' = Some (Float 0.03)"
    "map_of (t ! 1) ''Discount Rate'' = Some (Float 0.05)"
    "map_of (t' ! 0) ''Discount Rate'' = Some (Float 0.04)"
    "map_of (t' ! 1) ''Discount Rate'' = Some (Float 0.06)"
    by (simp_all add: len cells)
  from s(2) have spot: "spot = Float 100" by (simp add: cells)
  from s(3) have lt: "length t = 2" by (simp add: len)
  show ?thesis
  proof (intro conjI)
    show "has_columns (input_columns ''smooth'') precomputed_table" by (rule hs)
    show "precomputed_table \<noteq> []" by (rule ne)
    from s(1) spot lt rates(1,2)
    show "\<exists>spot t. volatility_init exact_arith example_to_datetime ?p ''smooth'' (Some precomputed_table)
              = Precomputed_path (Inr (spot, t)) \<and>
      spot = Float 100 \<and> length t = 2 \<and>
      map_of (t ! 0) ''Discount Rate'' = Some (Float 0.03) \<and>
      map_of (t ! 1) ''Discount Rate'' = Some (Float 0.05)"
      by (intro exI [of _ spot] exI [of _ t] conjI)
    from d rates(3,4)
    show "\<exists>spot t. volatility_init exact_arith example_to_datetime ?p ''direct'' (Some precomputed_table)
              = Precomputed_path (Inr (spot, t)) \<and>
      map_of (t ! 0) ''Discount Rate'' = Some (Float 0.04) \<and>
      map_of (t ! 1) ''Discount Rate'' = Some (Float 0.06)"
      by (intro exI [of _ spot'] exI [of _ t'] conjI)
  qed
qed

section \<open>The trading calendar\<close>

lemma filter_zip_swap:
  "map snd (filter (\<lambda>(i, r). Q i) (zip js xs)) = map fst (filter (\<lambda>p. Q (snd p)) (zip xs js))"
  by (induction js xs rule: list_induct2') auto

lemma custom_rules_nths: "custom_rules rules = nths rules {i. i \<noteq> 6 \<and> i \<noteq> 7}"
  by (simp add: custom_rules_def enumerate_eq_zip nths_def filter_zip_swap)

lemma custom_rules_set:
  "set (custom_rules rules) = {rules ! i | i. i < length rules \<and> i \<noteq> 6 \<and> i \<noteq> 7}"
  by (simp add: custom_rules_nths set_nths)

lemma custom_rules_length:
  assumes "8 \<le> length rules"
  shows "length (custom_rules rules) = length rules - 2"
proof -
  have "{i. i < length rules \<and> i \<in> {i. i \<noteq> 6 \<and> i \<noteq> 7}} = {..<length rules} - {6, 7}"
    by auto
  moreover from assms have "card ({..<length rules} - {6, 7}) = length rules - 2"
    by (subst card_Diff_subset) auto
  ultimately show ?thesis
    by (simp add: custom_rules_nths length_nths)
qed

lemma custom_rules_names:
  "distinct (map rule_name rules) \<Longrightarrow> distinct (map rule_name (custom_rules rules))"
  by (simp add: custom_rules_nths nths_map [symmetric])

lemma merge_class_distinct:
  assumes "distinct (map rule_name base)" and "rule_name other \<notin> rule_name ` set base"
  shows "merge_class base [other] = other # base"
proof -
  let ?ps = "map (\<lambda>h. (rule_name h, h)) [other] @ map (\<lambda>h. (rule_name h, h)) base"
  from assms have "distinct (map fst ?ps)"
    by (simp add: comp_def)
  then have "py_dict ?ps = ?ps" by (rule py_dict_distinct)
  then show ?thesis
    by (simp add: merge_class_def comp_def)
qed

lemma merge_class_subset: "set (merge_class base other) \<subseteq> set other \<union> set base"
proof -
  have step: "set (AList.update k v al) \<subseteq> insert (k, v) (set al)" for k :: string
    and v :: holiday_rule and al
    by (induction al) auto
  have "set (foldl (\<lambda>d (k, v). AList.update k v d) acc ps) \<subseteq> set acc \<union> set ps"
    for acc ps :: "(string \<times> holiday_rule) list"
  proof (induction ps arbitrary: acc)
    case Nil
    then show ?case by simp
  next
    case (Cons a ps)
    obtain k v where a: "a = (k, v)" by (cases a)
    from Cons.IH [of "AList.update k v acc"] step [of k v acc] a show ?case
      by auto
  qed
  from this [of "[]" "map (\<lambda>h. (rule_name h, h)) other @ map (\<lambda>h. (rule_name h, h)) base"]
  show ?thesis
    by (auto simp: merge_class_def py_dict_def)
qed

lemma holidays_sorted: "sorted (holidays rules start end)"
  by (simp add: holidays_def sorted_filter [where f = "\<lambda>x. x", simplified])

lemma holidays_set:
  "set (holidays rules start end) =
     {d. start \<le> d \<and> d \<le> end \<and> (\<exists>rule \<in> set rules. d \<in> set (rule_dates rule start end))}"
  by (auto simp: holidays_def)

lemma trading_calendar_dates:
  assumes "distinct (map rule_name federal_rules)"
    and "rule_name good_friday \<notin> rule_name ` set federal_rules"
  shows "set (trading_calendar federal_rules good_friday today) =
        {d. today \<le> d \<and> d \<le> today + 2500 \<and>
            (\<exists>rule \<in> insert good_friday (set (custom_rules federal_rules)).
               d \<in> set (rule_dates rule today (today + 2500)))}"
proof -
  from assms have d: "distinct (map rule_name (custom_rules federal_rules))"
    by (simp add: custom_rules_names)
  have "set (custom_rules federal_rules) \<subseteq> set federal_rules"
    by (simp add: custom_rules_nths set_nths_subset)
  with assms have "rule_name good_friday \<notin> rule_name ` set (custom_rules federal_rules)"
    by auto
  from merge_class_distinct [OF d this]
  have "merge_class (custom_rules federal_rules) [good_friday] =
      good_friday # custom_rules federal_rules" .
  then show ?thesis
    by (simp add: trading_calendar_def holidays_set)
qed

text \<open>
  Claim C9 at its failing input. On the rule table of pandas with Juneteenth at index 4,
  the indices 6 and 7 that line 562 skips are Labor Day and Columbus Day, not Columbus
  Day and Veterans Day as the comment of line 560 says. The rules kept include Veterans
  Day; the calendar built on 2025-01-01 holds Veterans Day 2025 and holds neither Labor
  Day 2025 nor Columbus Day 2025.
\<close>

theorem labor_day_removed_veterans_day_kept:
  "map rule_name (custom_rules pandas_federal_rules) =
     [''New Years Day'', ''Birthday of Martin Luther King, Jr.'', ''Washingtons Birthday'',
      ''Memorial Day'', ''Juneteenth National Independence Day'', ''Independence Day'',
      ''Veterans Day'', ''Thanksgiving Day'', ''Christmas Day''] \<and>
   739566 \<in> set (trading_calendar pandas_federal_rules pandas_good_friday 739252) \<and>
   739495 \<notin> set (trading_calendar pandas_federal_rules pandas_good_friday 739252) \<and>
   739537 \<notin> set (trading_calendar pandas_federal_rules pandas_good_friday 739252)"
proof -
  have cr: "custom_rules pandas_federal_rules =
     [pandas_federal_rules ! 0, pandas_federal_rules ! 1, pandas_federal_rules ! 2,
      pandas_federal_rules ! 3, pandas_federal_rules ! 4, pandas_federal_rules ! 5,
      pandas_federal_rules ! 8, pandas_federal_rules ! 9, pandas_federal_rules ! 10]"
    by (simp add: custom_rules_def pandas_federal_rules_def enumerate_simps)
  have names: "distinct (map rule_name pandas_federal_rules)"
    by (simp add: pandas_federal_rules_def fixed_rule_def)
  have gf: "rule_name pandas_good_friday \<notin> rule_name ` set pandas_federal_rules"
    by (simp add: pandas_federal_rules_def pandas_good_friday_def fixed_rule_def)
  note cal = trading_calendar_dates [OF names gf, of 739252]
  have n: "map rule_name (custom_rules pandas_federal_rules) =
     [''New Years Day'', ''Birthday of Martin Luther King, Jr.'', ''Washingtons Birthday'',
      ''Memorial Day'', ''Juneteenth National Independence Day'', ''Independence Day'',
      ''Veterans Day'', ''Thanksgiving Day'', ''Christmas Day'']"
    by (simp add: cr) (simp add: pandas_federal_rules_def fixed_rule_def)
  have v: "739566 \<in> set (trading_calendar pandas_federal_rules pandas_good_friday 739252)"
    by (simp add: cal cr) (simp add: pandas_federal_rules_def fixed_rule_def)
  have l: "739495 \<notin> set (trading_calendar pandas_federal_rules pandas_good_friday 739252)"
    by (simp add: cal cr)
       (simp add: pandas_federal_rules_def pandas_good_friday_def fixed_rule_def)
  have c: "739537 \<notin> set (trading_calendar pandas_federal_rules pandas_good_friday 739252)"
    by (simp add: cal cr)
       (simp add: pandas_federal_rules_def pandas_good_friday_def fixed_rule_def)
  from n v l c show ?thesis by (intro conjI)
qed

end
